theory Spec2Isabelle
  imports Main "HOL-Library.Sublist"
begin

section \<open>JavaScript values used by the client\<close>

text \<open>
  An optional string field of the TypeScript sources (\<open>string | undefined\<close> in
  \<open>SalesforceConfig\<close>, \<open>string | null\<close> in \<open>SalesforcePasswordAuth\<close>) is a
  \<open>string option\<close>. In a condition JavaScript takes the absent value and the empty
  string as false and every other string as true.
\<close>

definition truthy :: "string option \<Rightarrow> bool" where
  "truthy v = (case v of None \<Rightarrow> False | Some s \<Rightarrow> s \<noteq> [])"

text \<open>A template literal prints an absent config field as \<open>undefined\<close>.\<close>

definition interp :: "string option \<Rightarrow> string" where
  "interp v = (case v of None \<Rightarrow> ''undefined'' | Some s \<Rightarrow> s)"

text \<open>
  A parsed JSON value. A number is kept as the text JavaScript prints for it, an object
  as its list of members.
\<close>

datatype json =
    JNull
  | JBool bool
  | JNum string
  | JStr string
  | JArr "json list"
  | JObj "(string \<times> json) list"

text \<open>\<open>xs.join(sep)\<close> on strings.\<close>

fun join :: "string \<Rightarrow> string list \<Rightarrow> string" where
  "join sep [] = []"
| "join sep [x] = x"
| "join sep (x # y # ys) = x @ sep @ join sep (y # ys)"

text \<open>
  JavaScript's conversion of a value to a string, as a template literal applies it:
  an array prints its elements joined by commas, \<open>null\<close> elements as nothing, and
  an object prints as \<open>[object Object]\<close>.
\<close>

fun to_string :: "json \<Rightarrow> string" where
  "to_string JNull = ''null''"
| "to_string (JBool b) = (if b then ''true'' else ''false'')"
| "to_string (JNum t) = t"
| "to_string (JStr s) = s"
| "to_string (JArr xs) =
     join '','' (map (\<lambda>x. if x = JNull then [] else to_string x) xs)"
| "to_string (JObj kvs) = ''[object Object]''"

text \<open>Decimal digits of a number, for \<open>`HTTP ${status}`\<close>.\<close>

function show_nat :: "nat \<Rightarrow> string" where
  "show_nat n =
     (if n < 10 then [''0123456789'' ! n]
      else show_nat (n div 10) @ [''0123456789'' ! (n mod 10)])"
  by pat_completeness auto
termination
  by (relation "measure (\<lambda>n. n)") auto

declare show_nat.simps [simp del]

text \<open>
  \<open>s.replace(pat, rep)\<close> with a string pattern: the first occurrence only.
\<close>

fun replace_first :: "string \<Rightarrow> string \<Rightarrow> string \<Rightarrow> string" where
  "replace_first pat rep [] = (if pat = [] then rep else [])"
| "replace_first pat rep (c # cs) =
     (if prefix pat (c # cs) then rep @ drop (length pat) (c # cs)
      else c # replace_first pat rep cs)"

text \<open>The pictographs of the log messages, as their UTF-8 bytes.\<close>

definition cross_mark :: string where
  "cross_mark = [CHR 0xE2, CHR 0x9D, CHR 0x8C]"

definition check_mark :: string where
  "check_mark = [CHR 0xE2, CHR 0x9C, CHR 0x85]"

definition key_sign :: string where
  "key_sign = [CHR 0xF0, CHR 0x9F, CHR 0x94, CHR 0x91]"

definition lock_sign :: string where
  "lock_sign = [CHR 0xF0, CHR 0x9F, CHR 0x94, CHR 0x90]"

definition arrows_sign :: string where
  "arrows_sign = [CHR 0xF0, CHR 0x9F, CHR 0x94, CHR 0x84]"

definition bulb_sign :: string where
  "bulb_sign = [CHR 0xF0, CHR 0x9F, CHR 0x92, CHR 0xA1]"

section \<open>Thrown values, the console and the network\<close>

text \<open>
  What a rejected promise carries. An \<open>AxiosError\<close> has a message, the response
  (status and body) when the server answered, and the flag that a request was sent.
  \<open>JsError\<close> is any other \<open>Error\<close> instance, in particular \<open>new Error(msg)\<close>.
\<close>

datatype thrown =
    AxiosError string "(nat \<times> json) option" bool
  | JsError string
  | ThrownString string
  | ThrownOther

datatype console_arg = Txt string | Obj thrown

datatype console_line = ConsoleLog "console_arg list" | ConsoleError "console_arg list"

datatype http_method = GET | POST | PATCH | DELETE

text \<open>The \<open>AxiosRequestConfig\<close> of a call against the data endpoint.\<close>

record api_request =
  req_method :: http_method
  req_url :: string
  req_authorization :: string
  req_content_type :: string
  req_params :: "(string \<times> json) list option"
  req_data :: "json option"

text \<open>A form-encoded \<open>axios.post\<close> against the identity endpoint.\<close>

record token_request =
  token_url :: string
  token_form :: "(string \<times> string) list"
  token_content_type :: string

datatype request = ApiRequest api_request | TokenRequest token_request

text \<open>
  The body of the identity endpoint's answer (\<open>SalesforceAuthResponse\<close>); the
  fields the client never reads are left out. The answer to a refresh grant is the same
  JSON object, which the client reads through \<open>SalesforceTokenRefreshResponse\<close>, a
  type that declares no \<open>refresh_token\<close>.
\<close>

record token_data =
  access_token :: string
  instance_url :: string
  refresh_token :: "string option"

datatype 'b response = Response nat 'b

text \<open>
  The outside of the process: the requests issued so far, in order, and the lines
  written to the console.
\<close>

record io =
  requests :: "request list"
  console :: "console_line list"

text \<open>
  The environment of one run. \<open>api\<close> and \<open>oauth\<close> are the two remote endpoints:
  each answers a request, given the requests issued before it, by resolving or by
  rejecting. \<open>'d\<close> is the type \<open>T\<close> of \<open>makeRequest<T>\<close>, the shape of the data
  endpoint's bodies. \<open>debug_enabled\<close> is
  \<open>process.env.DEBUG === 'true' || process.env.NODE_ENV === 'development'\<close>, and
  \<open>stringify\<close> is \<open>JSON.stringify(v, null, 2)\<close>.
\<close>

record 'd env =
  debug_enabled :: bool
  stringify :: "json \<Rightarrow> string"
  api :: "request list \<Rightarrow> api_request \<Rightarrow> thrown + 'd"
  oauth :: "request list \<Rightarrow> token_request \<Rightarrow> thrown + token_data response"

definition axios :: "'d env \<Rightarrow> api_request \<Rightarrow> io \<Rightarrow> (thrown + 'd) \<times> io" where
  "axios e cfg w = (api e (requests w) cfg, w\<lparr>requests := requests w @ [ApiRequest cfg]\<rparr>)"

definition axios_post ::
  "'d env \<Rightarrow> token_request \<Rightarrow> io \<Rightarrow> (thrown + token_data response) \<times> io" where
  "axios_post e rq w =
     (oauth e (requests w) rq, w\<lparr>requests := requests w @ [TokenRequest rq]\<rparr>)"

definition console_log :: "console_arg list \<Rightarrow> io \<Rightarrow> io" where
  "console_log args w = w\<lparr>console := console w @ [ConsoleLog args]\<rparr>"

definition console_error :: "console_arg list \<Rightarrow> io \<Rightarrow> io" where
  "console_error args w = w\<lparr>console := console w @ [ConsoleError args]\<rparr>"

definition debugLog :: "'d env \<Rightarrow> string \<Rightarrow> io \<Rightarrow> io" where
  "debugLog e message w = (if debug_enabled e then console_log [Txt message] w else w)"

definition errorLog :: "'d env \<Rightarrow> console_arg list \<Rightarrow> io \<Rightarrow> io" where
  "errorLog e args w = (if debug_enabled e then console_error args w else w)"

section \<open>Configuration (config.ts)\<close>

record SalesforceConfig =
  clientId :: string
  clientSecret :: string
  username :: "string option"
  password :: "string option"
  securityToken :: "string option"
  sandbox :: bool
  accessToken :: "string option"
  instanceUrl :: "string option"

definition LOGIN_URL :: string where
  "LOGIN_URL = ''https://login.salesforce.com''"

definition SANDBOX_URL :: string where
  "SANDBOX_URL = ''https://test.salesforce.com''"

definition OAUTH_TOKEN_PATH :: string where
  "OAUTH_TOKEN_PATH = ''/services/oauth2/token''"

definition API_VERSION :: string where
  "API_VERSION = ''v58.0''"

definition getSalesforceBaseUrl :: "bool \<Rightarrow> string" where
  "getSalesforceBaseUrl sb = (if sb then SANDBOX_URL else LOGIN_URL)"

definition getOAuthTokenUrl :: "bool \<Rightarrow> string" where
  "getOAuthTokenUrl sb = getSalesforceBaseUrl sb @ OAUTH_TOKEN_PATH"

text \<open>
  \<open>instanceUrl.replace(/\/$/, '')\<close> drops one slash at the very end;
  \<open>path.startsWith('/')\<close> decides whether a slash is put in front of the path.
\<close>

definition getApiUrl :: "string \<Rightarrow> string \<Rightarrow> string" where
  "getApiUrl inst path =
     (let cleanInstanceUrl = (if inst \<noteq> [] \<and> last inst = CHR ''/'' then butlast inst else inst);
          cleanPath = (if prefix ''/'' path then path else ''/'' @ path)
      in cleanInstanceUrl @ ''/services/data/'' @ API_VERSION @ cleanPath)"

text \<open>\<open>ConfigManager.validateConfig\<close>: returns normally or throws.\<close>

definition validateConfig :: "SalesforceConfig \<Rightarrow> thrown + unit" where
  "validateConfig cfg =
     (if clientId cfg = [] \<or> clientSecret cfg = []
      then Inl (JsError ''Client ID and Client Secret are required'')
      else
        let hasDirectTokens = truthy (accessToken cfg) \<and> truthy (instanceUrl cfg);
            hasCredentials = truthy (username cfg) \<and> truthy (password cfg)
        in if \<not> hasDirectTokens \<and> \<not> hasCredentials
           then Inl (JsError
             ''Either (SALESFORCE_ACCESS_TOKEN + SALESFORCE_INSTANCE_URL) or (SALESFORCE_USERNAME + SALESFORCE_PASSWORD) must be provided'')
           else Inr ())"

section \<open>Password authentication (auth/password-auth.ts)\<close>

record SalesforcePasswordAuth =
  auth_clientId :: string
  auth_clientSecret :: string
  auth_accessToken :: "string option"
  auth_instanceUrl :: "string option"
  refreshToken :: "string option"

text \<open>The constructor: the three session fields start as \<open>null\<close>.\<close>

definition new_SalesforcePasswordAuth :: "string \<Rightarrow> string \<Rightarrow> SalesforcePasswordAuth" where
  "new_SalesforcePasswordAuth cid csecret =
     \<lparr>auth_clientId = cid, auth_clientSecret = csecret, auth_accessToken = None,
      auth_instanceUrl = None, refreshToken = None\<rparr>"

definition getErrorMessage :: "thrown \<Rightarrow> string" where
  "getErrorMessage err =
     (case err of
        AxiosError m r q \<Rightarrow> m
      | JsError m \<Rightarrow> m
      | ThrownString s \<Rightarrow> s
      | ThrownOther \<Rightarrow> ''Unknown error occurred'')"

definition handleAuthError :: "'d env \<Rightarrow> thrown \<Rightarrow> io \<Rightarrow> io" where
  "handleAuthError e err w =
     (let w1 = console_error [Txt (cross_mark @ '' Authentication error:''), Txt (getErrorMessage err)] w
      in case err of
           AxiosError m (Some (status, body)) q \<Rightarrow>
             (let w2 = console_error [Txt (''   Status: '' @ show_nat status)] w1;
                  w3 = console_error [Txt (''   Response: '' @ stringify e body)] w2
              in if status = 400
                 then console_error [Txt ''      - For sandbox, make sure sandbox=true'']
                       (console_error [Txt ''      - Ensure Connected App has correct OAuth scopes'']
                       (console_error [Txt ''      - Verify security token if required'']
                       (console_error [Txt ''      - Check username and password are correct'']
                       (console_error [Txt (''   '' @ bulb_sign @ '' Common fixes:'')] w3))))
                 else w3)
         | AxiosError m None q \<Rightarrow>
             (if q then console_error
                   [Txt (''   '' @ bulb_sign @ '' Network error - check your internet connection'')] w1
              else w1)
         | _ \<Rightarrow> w1)"

text \<open>The JSON text of a token body, for the diagnostic of a status other than 200.\<close>

definition token_json :: "token_data \<Rightarrow> json" where
  "token_json d =
     JObj ([(''access_token'', JStr (access_token d)), (''instance_url'', JStr (instance_url d))]
           @ (case refresh_token d of None \<Rightarrow> [] | Some r \<Rightarrow> [(''refresh_token'', JStr r)]))"

text \<open>
  What \<open>authenticate\<close> posts: \<open>tokenUrl\<close>, the \<open>URLSearchParams\<close> it builds
  (with \<open>combinedPassword\<close>), and the header.
\<close>

definition password_grant ::
  "SalesforcePasswordAuth \<Rightarrow> string \<Rightarrow> string \<Rightarrow> string \<Rightarrow> bool \<Rightarrow> token_request" where
  "password_grant a usr pwd secTok sb =
     (let tokenUrl = getOAuthTokenUrl sb;
          combinedPassword = (if secTok \<noteq> [] then pwd @ secTok else pwd)
      in \<lparr>token_url = tokenUrl,
          token_form = [(''grant_type'', ''password''),
                        (''client_id'', auth_clientId a),
                        (''client_secret'', auth_clientSecret a),
                        (''username'', usr),
                        (''password'', combinedPassword)],
          token_content_type = ''application/x-www-form-urlencoded''\<rparr>)"

definition authenticate ::
  "'d env \<Rightarrow> string \<Rightarrow> string \<Rightarrow> string \<Rightarrow> bool \<Rightarrow> SalesforcePasswordAuth \<times> io
     \<Rightarrow> bool \<times> SalesforcePasswordAuth \<times> io" where
  "authenticate e usr pwd secTok sb s =
     (case s of (a, w) \<Rightarrow>
        let w1 = debugLog e (lock_sign @ '' Authenticating with Salesforce using password flow...'') w
        in (case axios_post e (password_grant a usr pwd secTok sb) w1 of
             (Inr (Response status body), w2) \<Rightarrow>
               if status = 200
               then (let a' = a\<lparr>auth_accessToken := Some (access_token body),
                                 auth_instanceUrl := Some (instance_url body),
                                 refreshToken := refresh_token body\<rparr>;
                         w3 = debugLog e (check_mark @ '' Authentication successful!'') w2;
                         w4 = debugLog e (''   Instance URL: '' @ instance_url body) w3
                     in (True, a', w4))
               else (False, a,
                     console_error [Txt (''   Response: '' @ stringify e (token_json body))]
                       (console_error
                          [Txt (cross_mark @ '' Authentication failed: '' @ show_nat status)] w2))
           | (Inl err, w2) \<Rightarrow> (False, a, handleAuthError e err w2)))"

text \<open>What \<open>refreshAccessToken\<close> posts when it holds the refresh token \<open>rt\<close>.\<close>

definition refresh_grant :: "SalesforcePasswordAuth \<Rightarrow> string \<Rightarrow> bool \<Rightarrow> token_request" where
  "refresh_grant a rt sb =
     (let tokenUrl = getOAuthTokenUrl sb
      in \<lparr>token_url = tokenUrl,
          token_form = [(''grant_type'', ''refresh_token''),
                        (''client_id'', auth_clientId a),
                        (''client_secret'', auth_clientSecret a),
                        (''refresh_token'', rt)],
          token_content_type = ''application/x-www-form-urlencoded''\<rparr>)"

definition refreshAccessToken ::
  "'d env \<Rightarrow> bool \<Rightarrow> SalesforcePasswordAuth \<times> io \<Rightarrow> bool \<times> SalesforcePasswordAuth \<times> io" where
  "refreshAccessToken e sb s =
     (case s of (a, w) \<Rightarrow>
       (case refreshToken a of
          None \<Rightarrow> (False, a, console_error [Txt (cross_mark @ '' No refresh token available'')] w)
        | Some rt \<Rightarrow>
            if rt = []
            then (False, a, console_error [Txt (cross_mark @ '' No refresh token available'')] w)
            else
              let w1 = debugLog e (arrows_sign @ '' Refreshing access token...'') w
              in (case axios_post e (refresh_grant a rt sb) w1 of
                   (Inr (Response status body), w2) \<Rightarrow>
                     if status = 200
                     then (True,
                           a\<lparr>auth_accessToken := Some (access_token body),
                             auth_instanceUrl := Some (instance_url body)\<rparr>,
                           debugLog e (check_mark @ '' Token refresh successful!'') w2)
                     else (False, a,
                           console_error [Txt (''   Response: '' @ stringify e (token_json body))]
                             (console_error
                                [Txt (cross_mark @ '' Token refresh failed: '' @ show_nat status)] w2))
                 | (Inl err, w2) \<Rightarrow>
                     (False, a,
                      console_error
                        [Txt (cross_mark @ '' Token refresh error:''), Txt (getErrorMessage err)] w2))))"

definition auth_isAuthenticated :: "SalesforcePasswordAuth \<Rightarrow> bool" where
  "auth_isAuthenticated a = (truthy (auth_accessToken a) \<and> truthy (auth_instanceUrl a))"

definition clearAuth :: "SalesforcePasswordAuth \<Rightarrow> SalesforcePasswordAuth" where
  "clearAuth a = a\<lparr>auth_accessToken := None, auth_instanceUrl := None, refreshToken := None\<rparr>"

section \<open>The client (client/salesforce-client.ts)\<close>

record picklist_entry =
  pv_label :: string
  pv_value :: string
  pv_active :: bool
  pv_defaultValue :: bool

record SalesforceField =
  fld_label :: string
  fld_name :: string
  fld_updateable :: bool
  fld_type :: string
  fld_length :: int
  fld_picklistValues :: "picklist_entry list"

text \<open>
  The body of a describe call. The service sends more attributes per field than the six
  of \<open>SalesforceField\<close>; \<open>'z\<close> stands for the rest.
\<close>

record 'z SalesforceObjectMetadata =
  md_fields :: "'z SalesforceField_scheme list"
  md_label :: string
  md_name :: string
  md_queryable :: bool
  md_createable :: bool
  md_updateable :: bool
  md_deletable :: bool

record 'r SalesforceQueryResult =
  qr_totalSize :: int
  qr_done :: bool
  qr_records :: "'r list"
  qr_nextRecordsUrl :: "string option"

record 'r search_result =
  searchRecords :: "'r list option"

record SalesforceClient =
  config :: SalesforceConfig
  authClient :: "SalesforcePasswordAuth option"
  sobjectsCache :: "string \<rightharpoonup> SalesforceField list"

definition new_SalesforceClient :: "SalesforceConfig \<Rightarrow> SalesforceClient" where
  "new_SalesforceClient cfg = \<lparr>config = cfg, authClient = None, sobjectsCache = Map.empty\<rparr>"

subsection \<open>Request errors\<close>

text \<open>
  \<open>v.message\<close> and \<open>v[0]\<close> on a JSON value that is neither \<open>null\<close> nor
  \<open>undefined\<close>; \<open>None\<close> is \<open>undefined\<close>. A parsed object holds each key once.
\<close>

definition prop_message :: "json \<Rightarrow> json option" where
  "prop_message v = (case v of JObj kvs \<Rightarrow> map_of kvs ''message'' | _ \<Rightarrow> None)"

definition index0 :: "json \<Rightarrow> json option" where
  "index0 v =
     (case v of
        JArr xs \<Rightarrow> (case xs of [] \<Rightarrow> None | x # _ \<Rightarrow> Some x)
      | JObj kvs \<Rightarrow> map_of kvs ''0''
      | JStr s \<Rightarrow> (case s of [] \<Rightarrow> None | c # _ \<Rightarrow> Some (JStr [c]))
      | _ \<Rightarrow> None)"

text \<open>The optional chain \<open>v?.p\<close> and the operator \<open>a ?? b\<close>.\<close>

definition chain :: "(json \<Rightarrow> json option) \<Rightarrow> json option \<Rightarrow> json option" where
  "chain p v = (case v of None \<Rightarrow> None | Some JNull \<Rightarrow> None | Some x \<Rightarrow> p x)"

definition coalesce :: "json option \<Rightarrow> json option \<Rightarrow> json option" where
  "coalesce a b = (case a of None \<Rightarrow> b | Some JNull \<Rightarrow> b | Some x \<Rightarrow> Some x)"

definition handleRequestError :: "thrown \<Rightarrow> thrown" where
  "handleRequestError err =
     (case err of
        AxiosError m (Some (status, errorData)) q \<Rightarrow>
          JsError (''Salesforce API Error: '' @
            (case coalesce (chain prop_message (Some errorData))
                           (chain prop_message (chain index0 (Some errorData))) of
               None \<Rightarrow> ''HTTP '' @ show_nat status
             | Some JNull \<Rightarrow> ''HTTP '' @ show_nat status
             | Some message \<Rightarrow> to_string message))
      | AxiosError m None q \<Rightarrow>
          (if q then JsError ''Network error: Unable to reach Salesforce API'' else err)
      | JsError m \<Rightarrow> err
      | _ \<Rightarrow> JsError ''Unknown error occurred'')"

text \<open>\<open>axios.isAxiosError(error) && error.response?.status === 401\<close>.\<close>

definition is_401 :: "thrown \<Rightarrow> bool" where
  "is_401 err = (case err of AxiosError m (Some (status, b)) q \<Rightarrow> status = 401 | _ \<Rightarrow> False)"

subsection \<open>Session renewal and the request executor\<close>

type_synonym state = "SalesforceClient \<times> io"

definition tryTokenRefresh :: "'d env \<Rightarrow> state \<Rightarrow> bool \<times> state" where
  "tryTokenRefresh e s =
     (case s of (c, w) \<Rightarrow>
       (case authClient c of
          None \<Rightarrow> (False, c, w)
        | Some a \<Rightarrow>
            if truthy (refreshToken a)
            then (let w1 = debugLog e (arrows_sign @ '' Attempting to refresh access token...'') w
                  in (case refreshAccessToken e (sandbox (config c)) (a, w1) of
                        (ok, a', w2) \<Rightarrow>
                          if ok
                          then (True,
                                c\<lparr>authClient := Some a',
                                  config := (config c)\<lparr>accessToken := auth_accessToken a',
                                                        instanceUrl := auth_instanceUrl a'\<rparr>\<rparr>,
                                w2)
                          else (False, c\<lparr>authClient := Some a'\<rparr>,
                                errorLog e [Txt (cross_mark @ '' Token refresh failed'')] w2)))
            else (False, c, w)))"

text \<open>The request \<open>makeRequest\<close> builds from its arguments and the current config.\<close>

definition request_config ::
  "SalesforceConfig \<Rightarrow> http_method \<Rightarrow> string \<Rightarrow> json option \<Rightarrow> (string \<times> json) list option
     \<Rightarrow> api_request" where
  "request_config cfg m path body params =
     \<lparr>req_method = m,
      req_url = getApiUrl (interp (instanceUrl cfg)) path,
      req_authorization = ''Bearer '' @ interp (accessToken cfg),
      req_content_type = ''application/json'',
      req_params = params,
      req_data = body\<rparr>"

definition makeRequest ::
  "'d env \<Rightarrow> http_method \<Rightarrow> string \<Rightarrow> json option \<Rightarrow> (string \<times> json) list option
     \<Rightarrow> state \<Rightarrow> (thrown + 'd) \<times> state" where
  "makeRequest e m path body params s =
     (case s of (c, w) \<Rightarrow>
        if \<not> truthy (accessToken (config c)) \<or> \<not> truthy (instanceUrl (config c))
        then (Inl (JsError ''Not authenticated. Call connect() first.''), c, w)
        else
          (let rq = request_config (config c) m path body params
           in (case axios e rq w of
                 (Inr d, w1) \<Rightarrow> (Inr d, c, w1)
               | (Inl err, w1) \<Rightarrow>
                   if is_401 err
                   then (case tryTokenRefresh e (c, w1) of
                           (refreshed, c2, w2) \<Rightarrow>
                             if refreshed
                             then (case axios e
                                     (rq\<lparr>req_authorization :=
                                           ''Bearer '' @ interp (accessToken (config c2))\<rparr>) w2 of
                                     (retryResponse, w3) \<Rightarrow> (retryResponse, c2, w3))
                             else (Inl (handleRequestError err), c2, w2))
                   else (Inl (handleRequestError err), c, w1))))"

subsection \<open>Connection establishment\<close>

definition tryAccessTokenAuth :: "'d env \<Rightarrow> state \<Rightarrow> bool \<times> state" where
  "tryAccessTokenAuth e s =
     (case s of (c, w) \<Rightarrow>
        if truthy (accessToken (config c)) \<and> truthy (instanceUrl (config c))
        then (let w1 = debugLog e (key_sign @ '' Using access token from environment variables...'') w
              in (case makeRequest e GET ''/sobjects'' None None (c, w1) of
                    (Inr d, c2, w2) \<Rightarrow>
                      (True, c2, debugLog e (check_mark @ '' Access token authentication successful!'') w2)
                  | (Inl err, c2, w2) \<Rightarrow>
                      (False, c2,
                       errorLog e [Txt (cross_mark @ '' Access token is invalid or expired''), Obj err] w2)))
        else (False, c, w))"

definition tryUsernamePasswordAuth :: "'d env \<Rightarrow> state \<Rightarrow> bool \<times> state" where
  "tryUsernamePasswordAuth e s =
     (case s of (c, w) \<Rightarrow>
        if truthy (username (config c)) \<and> truthy (password (config c))
           \<and> clientId (config c) \<noteq> [] \<and> clientSecret (config c) \<noteq> []
        then (let w1 = debugLog e
                         (lock_sign @ '' Using username/password authentication with OAuth flow...'') w;
                  a = new_SalesforcePasswordAuth (clientId (config c)) (clientSecret (config c))
              in (case authenticate e (interp (username (config c))) (interp (password (config c)))
                         (case securityToken (config c) of None \<Rightarrow> [] | Some t \<Rightarrow> t)
                         (sandbox (config c)) (a, w1) of
                    (success, a', w2) \<Rightarrow>
                      if success
                      then (True,
                            c\<lparr>authClient := Some a',
                              config := (config c)\<lparr>accessToken := auth_accessToken a',
                                                    instanceUrl := auth_instanceUrl a'\<rparr>\<rparr>,
                            w2)
                      else (False, c\<lparr>authClient := Some a'\<rparr>,
                            errorLog e [Txt (cross_mark @ '' Username/password authentication failed'')] w2)))
        else (False, c, w))"

definition handleAuthFailure :: "'d env \<Rightarrow> state \<Rightarrow> bool \<times> state" where
  "handleAuthFailure e s =
     (case s of (c, w) \<Rightarrow>
        (False, c,
         errorLog e
           [Txt ''2. SALESFORCE_USERNAME + SALESFORCE_PASSWORD + SALESFORCE_CLIENT_ID + SALESFORCE_CLIENT_SECRET'']
           (errorLog e [Txt ''1. SALESFORCE_ACCESS_TOKEN + SALESFORCE_INSTANCE_URL'']
              (errorLog e
                 [Txt (cross_mark @ '' No valid authentication method found. Please set one of:'')] w))))"

text \<open>
  \<open>connect\<close> evaluates \<open>tryAccessTokenAuth() || tryUsernamePasswordAuth() ||
  handleAuthFailure()\<close> from left to right. Its \<open>catch\<close> handler (one more
  \<open>tryTokenRefresh\<close>) runs only when one of the three throws: \<open>tryAccessTokenAuth\<close>
  catches whatever \<open>makeRequest\<close> throws and \<open>authenticate\<close> catches whatever
  \<open>axios.post\<close> throws, so none of them does.
\<close>

definition connect :: "'d env \<Rightarrow> state \<Rightarrow> bool \<times> state" where
  "connect e s =
     (case tryAccessTokenAuth e s of
        (ok1, s1) \<Rightarrow>
          if ok1 then (True, s1)
          else (case tryUsernamePasswordAuth e s1 of
                  (ok2, s2) \<Rightarrow> if ok2 then (True, s2) else handleAuthFailure e s2))"

subsection \<open>Queries\<close>

definition query ::
  "('r SalesforceQueryResult) env \<Rightarrow> string \<Rightarrow> state
     \<Rightarrow> (thrown + 'r SalesforceQueryResult) \<times> state" where
  "query e q s = makeRequest e GET ''/query'' None (Some [(''q'', JStr q)]) s"

text \<open>
  The loop of \<open>queryAll\<close>: \<open>while (!result.done && result.nextRecordsUrl)\<close>. A
  service that never reports \<open>done\<close> and always names a next page keeps it running, so
  the loop is a partial function: \<open>None\<close> is the run that does not return. A request
  that throws ends the call with that error.
\<close>

partial_function (option) queryAll_loop ::
  "('r SalesforceQueryResult) env \<Rightarrow> 'r SalesforceQueryResult \<Rightarrow> state
     \<Rightarrow> ((thrown + 'r SalesforceQueryResult) \<times> state) option" where
  "queryAll_loop e result s =
     (case qr_nextRecordsUrl result of
        None \<Rightarrow> Some (Inr result, s)
      | Some u \<Rightarrow>
          if \<not> qr_done result \<and> u \<noteq> []
          then (case makeRequest e GET (replace_first ''/services/data/v58.0'' [] u) None None s of
                  (Inl err, s') \<Rightarrow> Some (Inl err, s')
                | (Inr nextResult, s') \<Rightarrow>
                    queryAll_loop e
                      (result\<lparr>qr_records := qr_records result @ qr_records nextResult,
                              qr_done := qr_done nextResult,
                              qr_nextRecordsUrl := qr_nextRecordsUrl nextResult,
                              qr_totalSize := qr_totalSize nextResult\<rparr>) s')
          else Some (Inr result, s))"

definition queryAll ::
  "('r SalesforceQueryResult) env \<Rightarrow> string \<Rightarrow> state
     \<Rightarrow> ((thrown + 'r SalesforceQueryResult) \<times> state) option" where
  "queryAll e q s =
     (case query e q s of
        (Inl err, s') \<Rightarrow> Some (Inl err, s')
      | (Inr result, s') \<Rightarrow> queryAll_loop e result s')"

definition search ::
  "('r search_result) env \<Rightarrow> string \<Rightarrow> state \<Rightarrow> (thrown + 'r list) \<times> state" where
  "search e searchQuery s =
     (case makeRequest e GET ''/search'' None (Some [(''q'', JStr searchQuery)]) s of
        (Inl err, s') \<Rightarrow> (Inl err, s')
      | (Inr result, s') \<Rightarrow>
          (Inr (case searchRecords result of None \<Rightarrow> [] | Some rs \<Rightarrow> rs), s'))"

subsection \<open>Object metadata and its cache\<close>

definition filteredField :: "'z SalesforceField_scheme \<Rightarrow> SalesforceField" where
  "filteredField field =
     \<lparr>fld_label = fld_label field,
      fld_name = fld_name field,
      fld_updateable = fld_updateable field,
      fld_type = fld_type field,
      fld_length = fld_length field,
      fld_picklistValues = fld_picklistValues field\<rparr>"

definition getObjectFields ::
  "('z SalesforceObjectMetadata) env \<Rightarrow> string \<Rightarrow> state
     \<Rightarrow> (thrown + SalesforceField list) \<times> state" where
  "getObjectFields e objectName s =
     (case s of (c, w) \<Rightarrow>
       (case sobjectsCache c objectName of
          Some cached \<Rightarrow> (Inr cached, c, w)
        | None \<Rightarrow>
           (case makeRequest e GET (''/sobjects/'' @ objectName @ ''/describe'') None None (c, w) of
              (Inl err, s') \<Rightarrow> (Inl err, s')
            | (Inr metadata, c', w') \<Rightarrow>
                (let filteredFields = map filteredField (md_fields metadata)
                 in (Inr filteredFields,
                     c'\<lparr>sobjectsCache := (sobjectsCache c')(objectName \<mapsto> filteredFields)\<rparr>,
                     w')))))"

subsection \<open>Records\<close>

definition getRecord ::
  "'d env \<Rightarrow> string \<Rightarrow> string \<Rightarrow> string list option \<Rightarrow> state \<Rightarrow> (thrown + 'd) \<times> state" where
  "getRecord e objectName recordId fieldNames s =
     (let path = ''/sobjects/'' @ objectName @ ''/'' @ recordId;
          path' = (case fieldNames of
                     None \<Rightarrow> path
                   | Some fs \<Rightarrow> if length fs > 0 then path @ ''?fields='' @ join '','' fs else path)
      in makeRequest e GET path' None None s)"

definition createRecord ::
  "'d env \<Rightarrow> string \<Rightarrow> json \<Rightarrow> state \<Rightarrow> (thrown + 'd) \<times> state" where
  "createRecord e objectName body s =
     makeRequest e POST (''/sobjects/'' @ objectName) (Some body) None s"

definition updateRecord ::
  "'d env \<Rightarrow> string \<Rightarrow> string \<Rightarrow> json \<Rightarrow> state \<Rightarrow> (thrown + bool) \<times> state" where
  "updateRecord e objectName recordId body s =
     (case makeRequest e PATCH (''/sobjects/'' @ objectName @ ''/'' @ recordId) (Some body) None s of
        (Inl err, s') \<Rightarrow> (Inl err, s')
      | (Inr d, s') \<Rightarrow> (Inr True, s'))"

definition deleteRecord ::
  "'d env \<Rightarrow> string \<Rightarrow> string \<Rightarrow> state \<Rightarrow> (thrown + bool) \<times> state" where
  "deleteRecord e objectName recordId s =
     (case makeRequest e DELETE (''/sobjects/'' @ objectName @ ''/'' @ recordId) None None s of
        (Inl err, s') \<Rightarrow> (Inl err, s')
      | (Inr d, s') \<Rightarrow> (Inr True, s'))"

subsection \<open>Tooling, Apex REST and direct calls\<close>

text \<open>
  \<open>toolingExecute\<close> and \<open>apexExecute\<close> call \<open>axios\<close> themselves, outside any
  \<open>try\<close>: what the call rejects with is what they throw.
\<close>

definition tooling_request :: "SalesforceConfig \<Rightarrow> string \<Rightarrow> http_method \<Rightarrow> json option \<Rightarrow> api_request" where
  "tooling_request cfg action m body =
     \<lparr>req_method = m,
      req_url = interp (instanceUrl cfg) @ ''/services/data/v58.0/tooling/'' @ action,
      req_authorization = ''Bearer '' @ interp (accessToken cfg),
      req_content_type = ''application/json'',
      req_params = None,
      req_data = body\<rparr>"

definition toolingExecute ::
  "'d env \<Rightarrow> string \<Rightarrow> http_method \<Rightarrow> json option \<Rightarrow> state \<Rightarrow> (thrown + 'd) \<times> state" where
  "toolingExecute e action m body s =
     (case s of (c, w) \<Rightarrow>
        if \<not> truthy (instanceUrl (config c))
        then (Inl (JsError ''Not authenticated. Call connect() first.''), c, w)
        else (case axios e (tooling_request (config c) action m body) w of
                (response, w1) \<Rightarrow> (response, c, w1)))"

definition apex_request :: "SalesforceConfig \<Rightarrow> string \<Rightarrow> http_method \<Rightarrow> json option \<Rightarrow> api_request" where
  "apex_request cfg action m body =
     (let cleanAction = (if prefix ''/'' action then action else ''/'' @ action)
      in \<lparr>req_method = m,
          req_url = interp (instanceUrl cfg) @ ''/services/apexrest'' @ cleanAction,
          req_authorization = ''Bearer '' @ interp (accessToken cfg),
          req_content_type = ''application/json'',
          req_params = None,
          req_data = body\<rparr>)"

definition apexExecute ::
  "'d env \<Rightarrow> string \<Rightarrow> http_method \<Rightarrow> json option \<Rightarrow> state \<Rightarrow> (thrown + 'd) \<times> state" where
  "apexExecute e action m body s =
     (case s of (c, w) \<Rightarrow>
        if \<not> truthy (instanceUrl (config c))
        then (Inl (JsError ''Not authenticated. Call connect() first.''), c, w)
        else (case axios e (apex_request (config c) action m body) w of
                (response, w1) \<Rightarrow> (response, c, w1)))"

definition restful ::
  "'d env \<Rightarrow> string \<Rightarrow> http_method \<Rightarrow> (string \<times> json) list option \<Rightarrow> json option \<Rightarrow> state
     \<Rightarrow> (thrown + 'd) \<times> state" where
  "restful e path m params body s = makeRequest e m path body params s"

definition isAuthenticated :: "SalesforceClient \<Rightarrow> bool" where
  "isAuthenticated c = (truthy (accessToken (config c)) \<and> truthy (instanceUrl (config c)))"

definition getInstanceUrl :: "SalesforceClient \<Rightarrow> string option" where
  "getInstanceUrl c = instanceUrl (config c)"

section \<open>Vocabulary of the statements\<close>

text \<open>The two kinds of entries of the request log.\<close>

definition is_api :: "request \<Rightarrow> bool" where
  "is_api x = (case x of ApiRequest r \<Rightarrow> True | TokenRequest t \<Rightarrow> False)"

definition is_token :: "request \<Rightarrow> bool" where
  "is_token x = (case x of ApiRequest r \<Rightarrow> False | TokenRequest t \<Rightarrow> True)"

text \<open>
  A page continues when the loop of \<open>queryAll\<close> would go on after it; the request for
  the page after \<open>p\<close> is the one the loop builds from \<open>p\<close>'s locator.
\<close>

definition has_next :: "'r SalesforceQueryResult \<Rightarrow> bool" where
  "has_next p = (\<not> qr_done p \<and> truthy (qr_nextRecordsUrl p))"

definition next_page_config :: "SalesforceConfig \<Rightarrow> 'r SalesforceQueryResult \<Rightarrow> api_request" where
  "next_page_config cfg p =
     request_config cfg GET
       (replace_first ''/services/data/v58.0'' []
          (case qr_nextRecordsUrl p of None \<Rightarrow> [] | Some u \<Rightarrow> u)) None None"

definition loop_requests ::
  "SalesforceConfig \<Rightarrow> 'r SalesforceQueryResult list \<Rightarrow> api_request list" where
  "loop_requests cfg pages = map (next_page_config cfg) (butlast pages)"

definition query_requests ::
  "SalesforceConfig \<Rightarrow> string \<Rightarrow> 'r SalesforceQueryResult list \<Rightarrow> api_request list" where
  "query_requests cfg q pages =
     request_config cfg GET ''/query'' None (Some [(''q'', JStr q)]) # loop_requests cfg pages"

text \<open>
  A credential exchange is a post of the password grant. The liveness probe is the
  request \<open>tryAccessTokenAuth\<close> makes, and the exchange request is the one
  \<open>tryUsernamePasswordAuth\<close> has \<open>authenticate\<close> post for a config.
\<close>

definition is_exchange :: "request \<Rightarrow> bool" where
  "is_exchange x =
     (case x of
        ApiRequest r \<Rightarrow> False
      | TokenRequest t \<Rightarrow> map_of (token_form t) ''grant_type'' = Some ''password'')"

definition probe :: "'d env \<Rightarrow> state \<Rightarrow> (thrown + 'd) \<times> state" where
  "probe e s =
     (case s of (c, w) \<Rightarrow>
        makeRequest e GET ''/sobjects'' None None
          (c, debugLog e (key_sign @ '' Using access token from environment variables...'') w))"

definition exchange_request :: "SalesforceConfig \<Rightarrow> token_request" where
  "exchange_request cfg =
     password_grant (new_SalesforcePasswordAuth (clientId cfg) (clientSecret cfg))
       (interp (username cfg)) (interp (password cfg))
       (case securityToken cfg of None \<Rightarrow> [] | Some t \<Rightarrow> t) (sandbox cfg)"

text \<open>The three lines \<open>handleAuthFailure\<close> hands to \<open>errorLog\<close>.\<close>

definition no_method_lines :: "console_line list" where
  "no_method_lines =
     [ConsoleError [Txt (cross_mark @ '' No valid authentication method found. Please set one of:'')],
      ConsoleError [Txt ''1. SALESFORCE_ACCESS_TOKEN + SALESFORCE_INSTANCE_URL''],
      ConsoleError [Txt ''2. SALESFORCE_USERNAME + SALESFORCE_PASSWORD + SALESFORCE_CLIENT_ID + SALESFORCE_CLIENT_SECRET'']]"

section \<open>Example runs\<close>

text \<open>
  A scripted environment answers the k-th call of each endpoint with the k-th entry of
  a list, as the \<open>mockResolvedValueOnce\<close> chains of the test suites do, and with a
  network error once the list is used up; \<open>to_string\<close> stands in for
  \<open>JSON.stringify\<close>, which only the diagnostics read. The configurations are those
  of the tests.
\<close>

definition network_error :: thrown where
  "network_error = AxiosError ''Network Error'' None True"

definition nth_answer :: "(thrown + 'a) list \<Rightarrow> nat \<Rightarrow> thrown + 'a" where
  "nth_answer xs k = (if k < length xs then xs ! k else Inl network_error)"

definition scripted ::
  "bool \<Rightarrow> (thrown + 'd) list \<Rightarrow> (thrown + token_data response) list \<Rightarrow> 'd env" where
  "scripted dbg answers grants =
     \<lparr>debug_enabled = dbg,
      stringify = to_string,
      api = (\<lambda>log rq. nth_answer answers (length (filter is_api log))),
      oauth = (\<lambda>log rq. nth_answer grants (length (filter is_token log)))\<rparr>"

definition fresh_io :: io where
  "fresh_io = \<lparr>requests = [], console = []\<rparr>"

definition test_config :: SalesforceConfig where
  "test_config =
     \<lparr>clientId = ''test-client-id'', clientSecret = ''test-client-secret'',
      username = Some ''test@example.com'', password = Some ''test-password'',
      securityToken = Some ''test-token'', sandbox = False,
      accessToken = None, instanceUrl = None\<rparr>"

definition token_config :: SalesforceConfig where
  "token_config = test_config\<lparr>accessToken := Some ''valid-token'',
                               instanceUrl := Some ''https://test.salesforce.com''\<rparr>"

definition unauthorized :: thrown where
  "unauthorized =
     AxiosError ''Request failed with status code 401''
       (Some (401, JObj [(''message'', JStr ''Unauthorized'')])) True"

definition refreshing_auth :: SalesforcePasswordAuth where
  "refreshing_auth =
     (new_SalesforcePasswordAuth ''test-client-id'' ''test-client-secret'')
       \<lparr>refreshToken := Some ''refresh-token''\<rparr>"

definition renewed :: token_data where
  "renewed = \<lparr>access_token = ''new-token'', instance_url = ''https://test.salesforce.com'',
              refresh_token = None\<rparr>"

definition refreshing_client :: SalesforceClient where
  "refreshing_client =
     \<lparr>config = token_config, authClient = Some refreshing_auth, sobjectsCache = Map.empty\<rparr>"

definition retry_env :: "json env" where
  "retry_env = scripted False [Inl unauthorized, Inr (JObj [(''success'', JBool True)])]
                 [Inr (Response 200 renewed)]"

definition account_metadata :: "unit SalesforceObjectMetadata" where
  "account_metadata =
     \<lparr>md_fields =
        [\<lparr>fld_label = ''Account Name'', fld_name = ''Name'', fld_updateable = True,
          fld_type = ''string'', fld_length = 255, fld_picklistValues = []\<rparr>,
         \<lparr>fld_label = ''Account Type'', fld_name = ''Type'', fld_updateable = True,
          fld_type = ''picklist'', fld_length = 255,
          fld_picklistValues =
            [\<lparr>pv_label = ''Prospect'', pv_value = ''Prospect'', pv_active = True,
              pv_defaultValue = False\<rparr>]\<rparr>],
      md_label = ''Account'', md_name = ''Account'', md_queryable = True,
      md_createable = True, md_updateable = True, md_deletable = True\<rparr>"

definition describe_env :: "(unit SalesforceObjectMetadata) env" where
  "describe_env = scripted False [Inr account_metadata] []"

definition valid_client :: SalesforceClient where
  "valid_client = new_SalesforceClient token_config"

definition page1 :: "string SalesforceQueryResult" where
  "page1 = \<lparr>qr_totalSize = 3, qr_done = False, qr_records = [''Account 1''],
            qr_nextRecordsUrl = Some ''/services/data/v58.0/query/01g-2000''\<rparr>"

definition page2 :: "string SalesforceQueryResult" where
  "page2 = \<lparr>qr_totalSize = 3, qr_done = False, qr_records = [''Account 2''],
            qr_nextRecordsUrl = Some ''/services/data/v58.0/query/01g-4000''\<rparr>"

definition page3 :: "string SalesforceQueryResult" where
  "page3 = \<lparr>qr_totalSize = 3, qr_done = True, qr_records = [''Account 3''],
            qr_nextRecordsUrl = None\<rparr>"

definition stalled_page :: "string SalesforceQueryResult" where
  "stalled_page = \<lparr>qr_totalSize = 3, qr_done = False, qr_records = [''Account 1''],
                   qr_nextRecordsUrl = None\<rparr>"

definition paged_env :: "(string SalesforceQueryResult) env" where
  "paged_env = scripted False [Inr page1, Inr page2, Inr page3] []"

definition stalled_env :: "(string SalesforceQueryResult) env" where
  "stalled_env = scripted False [Inr stalled_page] []"

definition account_fields :: "SalesforceField list" where
  "account_fields = map filteredField (md_fields account_metadata)"

definition describe_request :: api_request where
  "describe_request = request_config token_config GET ''/sobjects/Account/describe'' None None"

definition offline_env :: "json env" where
  "offline_env = scripted False [] []"

definition verbose_env :: "json env" where
  "verbose_env = scripted True [] []"

definition rotating_grant :: token_data where
  "rotating_grant =
     \<lparr>access_token = ''new-access-token'', instance_url = ''https://test.salesforce.com'',
      refresh_token = Some ''new-refresh-token''\<rparr>"

definition rotating_env :: "json env" where
  "rotating_env = scripted False [] [Inr (Response 200 rotating_grant)]"

definition bare_config :: SalesforceConfig where
  "bare_config =
     \<lparr>clientId = ''test-client-id'', clientSecret = ''test-client-secret'',
      username = None, password = None, securityToken = None, sandbox = False,
      accessToken = None, instanceUrl = None\<rparr>"

definition url_only_config :: SalesforceConfig where
  "url_only_config = bare_config\<lparr>instanceUrl := Some ''https://test.salesforce.com''\<rparr>"

definition tooling_env :: "json env" where
  "tooling_env = scripted False [Inr (JObj [(''success'', JBool True)]), Inr (JObj [(''success'', JBool True)])] []"

definition live_env :: "json env" where
  "live_env = scripted False [Inr (JObj [])] []"

definition stale_env :: "json env" where
  "stale_env = scripted False [Inl (JsError ''Unauthorized'')] [Inr (Response 200 renewed)]"

definition probe_request :: api_request where
  "probe_request = request_config token_config GET ''/sobjects'' None None"

definition twice_env :: "json env" where
  "twice_env = scripted False [Inl unauthorized, Inl unauthorized] [Inr (Response 200 renewed)]"

section \<open>Properties\<close>

subsection \<open>The request log under the diagnostics\<close>

lemma requests_console_log [simp]: "requests (console_log args w) = requests w"
  by (simp add: console_log_def)

lemma requests_console_error [simp]: "requests (console_error args w) = requests w"
  by (simp add: console_error_def)

lemma requests_debugLog [simp]: "requests (debugLog e m w) = requests w"
  by (simp add: debugLog_def)

lemma requests_errorLog [simp]: "requests (errorLog e args w) = requests w"
  by (simp add: errorLog_def)

lemma requests_handleAuthError [simp]: "requests (handleAuthError e err w) = requests w"
  by (simp add: handleAuthError_def Let_def split: thrown.splits option.splits prod.splits)

lemma requests_axios_post [simp]:
  "requests (snd (axios_post e rq w)) = requests w @ [TokenRequest rq]"
  by (simp add: axios_post_def)

lemma fst_axios_post [simp]: "fst (axios_post e rq w) = oauth e (requests w) rq"
  by (simp add: axios_post_def)

lemma is_api_simps [simp]: "is_api (ApiRequest r)" "\<not> is_api (TokenRequest t)"
  by (simp_all add: is_api_def)

lemma is_token_simps [simp]: "\<not> is_token (ApiRequest r)" "is_token (TokenRequest t)"
  by (simp_all add: is_token_def)

lemma refreshAccessToken_granted:
  assumes "refreshToken a = Some rt" "rt \<noteq> []"
    and "oauth e (requests w) (refresh_grant a rt sb) = Inr (Response 200 body)"
  shows "\<exists>w2. refreshAccessToken e sb (a, w) =
           (True, a\<lparr>auth_accessToken := Some (access_token body),
                    auth_instanceUrl := Some (instance_url body)\<rparr>, w2)
         \<and> requests w2 = requests w @ [TokenRequest (refresh_grant a rt sb)]"
  using assms by (simp add: refreshAccessToken_def axios_post_def)

lemma refreshAccessToken_refused:
  assumes "refreshToken a = Some rt" "rt \<noteq> []"
    and "\<forall>body. oauth e (requests w) (refresh_grant a rt sb) \<noteq> Inr (Response 200 body)"
  shows "\<exists>w2. refreshAccessToken e sb (a, w) = (False, a, w2)
         \<and> requests w2 = requests w @ [TokenRequest (refresh_grant a rt sb)]"
proof (cases "oauth e (requests w) (refresh_grant a rt sb)")
  case (Inl err)
  with assms(1,2) show ?thesis
    by (simp add: refreshAccessToken_def axios_post_def Let_def)
next
  case (Inr resp)
  obtain status body where resp: "resp = Response status body" by (cases resp)
  with Inr assms(3) have "status \<noteq> 200" by auto
  with Inr resp assms(1,2) show ?thesis
    by (simp add: refreshAccessToken_def axios_post_def Let_def)
qed

lemma tryTokenRefresh_no_material:
  assumes "authClient c = None \<or> (\<exists>a. authClient c = Some a \<and> \<not> truthy (refreshToken a))"
  shows "tryTokenRefresh e (c, w) = (False, c, w)"
  using assms by (auto simp add: tryTokenRefresh_def)

lemma tryTokenRefresh_granted:
  assumes "authClient c = Some a" "refreshToken a = Some rt" "rt \<noteq> []"
    and "oauth e (requests w) (refresh_grant a rt (sandbox (config c))) = Inr (Response 200 body)"
  shows "\<exists>c2 w2. tryTokenRefresh e (c, w) = (True, c2, w2)
         \<and> requests w2 = requests w @ [TokenRequest (refresh_grant a rt (sandbox (config c)))]
         \<and> accessToken (config c2) = Some (access_token body)
         \<and> instanceUrl (config c2) = Some (instance_url body)
         \<and> sobjectsCache c2 = sobjectsCache c"
proof -
  from assms(4) have "oauth e (requests (debugLog e (arrows_sign @ '' Attempting to refresh access token...'') w))
     (refresh_grant a rt (sandbox (config c))) = Inr (Response 200 body)"
    by simp
  from refreshAccessToken_granted [OF assms(2,3) this]
  obtain w2 where "refreshAccessToken e (sandbox (config c))
       (a, debugLog e (arrows_sign @ '' Attempting to refresh access token...'') w) =
           (True, a\<lparr>auth_accessToken := Some (access_token body),
                    auth_instanceUrl := Some (instance_url body)\<rparr>, w2)"
    and "requests w2 = requests w @ [TokenRequest (refresh_grant a rt (sandbox (config c)))]"
    by auto
  then show ?thesis
    using assms(1,2,3) by (simp add: tryTokenRefresh_def truthy_def)
qed

lemma tryTokenRefresh_refused:
  assumes "authClient c = Some a" "refreshToken a = Some rt" "rt \<noteq> []"
    and "\<forall>body. oauth e (requests w) (refresh_grant a rt (sandbox (config c))) \<noteq> Inr (Response 200 body)"
  shows "\<exists>w2. tryTokenRefresh e (c, w) = (False, c, w2)
         \<and> requests w2 = requests w @ [TokenRequest (refresh_grant a rt (sandbox (config c)))]"
proof -
  from assms(4) have "\<forall>body. oauth e (requests (debugLog e (arrows_sign @ '' Attempting to refresh access token...'') w))
     (refresh_grant a rt (sandbox (config c))) \<noteq> Inr (Response 200 body)"
    by simp
  from refreshAccessToken_refused [OF assms(2,3) this]
  obtain w2 where "refreshAccessToken e (sandbox (config c))
       (a, debugLog e (arrows_sign @ '' Attempting to refresh access token...'') w) = (False, a, w2)"
    and "requests w2 = requests w @ [TokenRequest (refresh_grant a rt (sandbox (config c)))]"
    by auto
  then show ?thesis
    using assms(1,2,3) by (simp add: tryTokenRefresh_def truthy_def)
qed

lemma password_grant_explicit:
  "password_grant a usr pwd secTok sb =
          \<lparr>token_url = (if sb then ''https://test.salesforce.com'' else ''https://login.salesforce.com'')
                        @ ''/services/oauth2/token'',
           token_form = [(''grant_type'', ''password''),
                         (''client_id'', auth_clientId a),
                         (''client_secret'', auth_clientSecret a),
                         (''username'', usr),
                         (''password'', if secTok = [] then pwd else pwd @ secTok)],
           token_content_type = ''application/x-www-form-urlencoded''\<rparr>"
  by (simp add: password_grant_def getOAuthTokenUrl_def getSalesforceBaseUrl_def SANDBOX_URL_def LOGIN_URL_def
        OAUTH_TOKEN_PATH_def)

lemma authenticate_requests:
  "requests (snd (snd (authenticate e usr pwd secTok sb (a, w)))) =
     requests w @ [TokenRequest (password_grant a usr pwd secTok sb)]"
  by (simp add: authenticate_def axios_post_def Let_def split: sum.split response.split)

lemma makeRequest_resolved:
  assumes "truthy (accessToken (config c))" "truthy (instanceUrl (config c))"
    and "api e (requests w) (request_config (config c) m path body params) = Inr d"
  shows "makeRequest e m path body params (c, w) =
           (Inr d, c, w\<lparr>requests := requests w @
                        [ApiRequest (request_config (config c) m path body params)]\<rparr>)"
  using assms by (simp add: makeRequest_def axios_def)

lemma queryAll_loop_stop:
  assumes "\<not> has_next result"
  shows "queryAll_loop e result s = Some (Inr result, s)"
  using assms
  by (subst queryAll_loop.simps) (auto simp add: has_next_def truthy_def split: option.split)

lemma makeRequest_first_401:
  assumes "truthy (accessToken (config c))" "truthy (instanceUrl (config c))"
    and "api e (requests w) (request_config (config c) m path body params) = Inl err"
    and "is_401 err"
  shows "makeRequest e m path body params (c, w) =
     (case tryTokenRefresh e
             (c, w\<lparr>requests := requests w @ [ApiRequest (request_config (config c) m path body params)]\<rparr>) of
        (refreshed, c2, w2) \<Rightarrow>
          if refreshed
          then (api e (requests w2)
                  ((request_config (config c) m path body params)
                     \<lparr>req_authorization := ''Bearer '' @ interp (accessToken (config c2))\<rparr>),
                c2,
                w2\<lparr>requests := requests w2 @
                   [ApiRequest ((request_config (config c) m path body params)
                     \<lparr>req_authorization := ''Bearer '' @ interp (accessToken (config c2))\<rparr>)]\<rparr>)
          else (Inl (handleRequestError err), c2, w2))"
  using assms by (simp add: makeRequest_def axios_def Let_def split: prod.split)

lemma token_config_truthy:
  "truthy (accessToken token_config)" "truthy (instanceUrl token_config)"
  by (simp_all add: token_config_def test_config_def truthy_def)

subsection \<open>The executor\<close>

text \<open>
  C1. When the first downstream request of a \<open>makeRequest\<close> call is rejected with
  status 401, the log grows by that request and at most one renewal post and one more
  data request. Without refresh material the error of the first request is thrown.
  With a refresh token one refresh grant is posted: on a 200 answer the same request
  is sent once more with the new bearer token and its outcome, data or error, is the
  outcome of the call; on any other answer the error of the first request is thrown.
\<close>

theorem makeRequest_retries_once:
  assumes auth: "truthy (accessToken (config c))" "truthy (instanceUrl (config c))"
    and rq: "rq = request_config (config c) m path body params"
    and first: "api e (requests w) rq = Inl err" "is_401 err"
    and run: "makeRequest e m path body params (c, w) = (r, c', w')"
  shows "(\<exists>new. requests w' = requests w @ ApiRequest rq # new
              \<and> length (filter is_api new) \<le> 1 \<and> length (filter is_token new) \<le> 1)
       \<and> ((authClient c = None \<or> (\<exists>a. authClient c = Some a \<and> \<not> truthy (refreshToken a)))
            \<longrightarrow> requests w' = requests w @ [ApiRequest rq] \<and> r = Inl (handleRequestError err))
       \<and> (\<forall>a rt. authClient c = Some a \<and> refreshToken a = Some rt \<and> rt \<noteq> [] \<longrightarrow>
            (let tq = refresh_grant a rt (sandbox (config c));
                 log1 = requests w @ [ApiRequest rq]
             in (\<forall>tok. oauth e log1 tq = Inr (Response 200 tok) \<longrightarrow>
                   (let rq' = rq\<lparr>req_authorization := ''Bearer '' @ access_token tok\<rparr>
                    in requests w' = log1 @ [TokenRequest tq, ApiRequest rq']
                       \<and> r = api e (log1 @ [TokenRequest tq]) rq'
                       \<and> accessToken (config c') = Some (access_token tok)))
              \<and> ((\<forall>tok. oauth e log1 tq \<noteq> Inr (Response 200 tok)) \<longrightarrow>
                   requests w' = log1 @ [TokenRequest tq] \<and> r = Inl (handleRequestError err))))"
proof -
  let ?w1 = "w\<lparr>requests := requests w @ [ApiRequest rq]\<rparr>"
  note step = makeRequest_first_401 [OF auth first(1) [unfolded rq] first(2), folded rq]
  have none: "requests w' = requests w @ [ApiRequest rq] \<and> r = Inl (handleRequestError err)"
    if "authClient c = None \<or> (\<exists>a. authClient c = Some a \<and> \<not> truthy (refreshToken a))"
    using tryTokenRefresh_no_material [OF that, of e ?w1] run step by auto
  have granted: "requests w' = requests w @ [ApiRequest rq] @
              [TokenRequest (refresh_grant a rt (sandbox (config c))),
               ApiRequest (rq\<lparr>req_authorization := ''Bearer '' @ access_token tok\<rparr>)]
           \<and> r = api e ((requests w @ [ApiRequest rq]) @ [TokenRequest (refresh_grant a rt (sandbox (config c)))])
                   (rq\<lparr>req_authorization := ''Bearer '' @ access_token tok\<rparr>)
           \<and> accessToken (config c') = Some (access_token tok)"
    if "authClient c = Some a" "refreshToken a = Some rt" "rt \<noteq> []"
      and "oauth e (requests w @ [ApiRequest rq]) (refresh_grant a rt (sandbox (config c))) = Inr (Response 200 tok)"
    for a rt tok
  proof -
    from that(4) have "oauth e (requests ?w1) (refresh_grant a rt (sandbox (config c))) = Inr (Response 200 tok)"
      by simp
    from tryTokenRefresh_granted [OF that(1,2,3) this]
    obtain c2 w2 where "tryTokenRefresh e (c, ?w1) = (True, c2, w2)"
      and "requests w2 = requests ?w1 @ [TokenRequest (refresh_grant a rt (sandbox (config c)))]"
      and "accessToken (config c2) = Some (access_token tok)"
      by blast
    with run step show ?thesis by (auto simp add: interp_def)
  qed
  have refused: "requests w' = (requests w @ [ApiRequest rq]) @ [TokenRequest (refresh_grant a rt (sandbox (config c)))]
           \<and> r = Inl (handleRequestError err)"
    if "authClient c = Some a" "refreshToken a = Some rt" "rt \<noteq> []"
      and "\<forall>tok. oauth e (requests w @ [ApiRequest rq]) (refresh_grant a rt (sandbox (config c))) \<noteq> Inr (Response 200 tok)"
    for a rt
  proof -
    from that(4) have "\<forall>tok. oauth e (requests ?w1) (refresh_grant a rt (sandbox (config c))) \<noteq> Inr (Response 200 tok)"
      by simp
    from tryTokenRefresh_refused [OF that(1,2,3) this]
    obtain w2 where "tryTokenRefresh e (c, ?w1) = (False, c, w2)"
      and "requests w2 = requests ?w1 @ [TokenRequest (refresh_grant a rt (sandbox (config c)))]"
      by blast
    with run step show ?thesis by auto
  qed
  have bound: "\<exists>new. requests w' = requests w @ ApiRequest rq # new
              \<and> length (filter is_api new) \<le> 1 \<and> length (filter is_token new) \<le> 1"
  proof (cases "authClient c = None \<or> (\<exists>a. authClient c = Some a \<and> \<not> truthy (refreshToken a))")
    case True
    from none [OF this] show ?thesis by simp
  next
    case False
    then obtain a where a1: "authClient c = Some a" and a2: "truthy (refreshToken a)"
      by (cases "authClient c") auto
    from a2 obtain rt where "refreshToken a = Some rt" "rt \<noteq> []"
      by (cases "refreshToken a") (auto simp add: truthy_def)
    with a1 have a: "authClient c = Some a" "refreshToken a = Some rt" "rt \<noteq> []"
      by simp_all
    show ?thesis
    proof (cases "\<exists>tok. oauth e (requests w @ [ApiRequest rq]) (refresh_grant a rt (sandbox (config c))) = Inr (Response 200 tok)")
      case True
      then obtain tok where "oauth e (requests w @ [ApiRequest rq]) (refresh_grant a rt (sandbox (config c))) = Inr (Response 200 tok)" ..
      from granted [OF a this] show ?thesis by simp
    next
      case False
      then have "\<forall>tok. oauth e (requests w @ [ApiRequest rq]) (refresh_grant a rt (sandbox (config c))) \<noteq> Inr (Response 200 tok)"
        by simp
      from refused [OF a this] show ?thesis by simp
    qed
  qed
  from none granted refused bound show ?thesis
    by (simp add: Let_def)
qed

theorem makeRequest_retries_once_witness:
  "fst (makeRequest retry_env GET ''/sobjects'' None None (refreshing_client, fresh_io))
       = Inr (JObj [(''success'', JBool True)])
   \<and> requests (snd (snd (makeRequest retry_env GET ''/sobjects'' None None (refreshing_client, fresh_io))))
       = [ApiRequest probe_request,
          TokenRequest (refresh_grant refreshing_auth ''refresh-token'' False),
          ApiRequest (probe_request\<lparr>req_authorization := ''Bearer new-token''\<rparr>)]
   \<and> fst (makeRequest twice_env GET ''/sobjects'' None None (refreshing_client, fresh_io))
       = Inl unauthorized
   \<and> requests (snd (snd (makeRequest twice_env GET ''/sobjects'' None None (refreshing_client, fresh_io))))
       = [ApiRequest probe_request,
          TokenRequest (refresh_grant refreshing_auth ''refresh-token'' False),
          ApiRequest (probe_request\<lparr>req_authorization := ''Bearer new-token''\<rparr>)]
   \<and> fst (makeRequest retry_env GET ''/sobjects'' None None (valid_client, fresh_io))
       = Inl (JsError ''Salesforce API Error: Unauthorized'')
   \<and> requests (snd (snd (makeRequest retry_env GET ''/sobjects'' None None (valid_client, fresh_io))))
       = [ApiRequest probe_request]"
proof -
  let ?run = "makeRequest retry_env GET ''/sobjects'' None None (refreshing_client, fresh_io)"
  let ?run2 = "makeRequest twice_env GET ''/sobjects'' None None (refreshing_client, fresh_io)"
  let ?run3 = "makeRequest retry_env GET ''/sobjects'' None None (valid_client, fresh_io)"
  let ?tq = "refresh_grant refreshing_auth ''refresh-token'' False"
  have cfg: "config refreshing_client = token_config"
    by (simp add: refreshing_client_def)
  have cfg3: "config valid_client = token_config"
    by (simp add: valid_client_def new_SalesforceClient_def)
  have h1: "truthy (accessToken (config refreshing_client))"
    and h2: "truthy (instanceUrl (config refreshing_client))"
    by (simp_all add: cfg token_config_truthy)
  have h3: "probe_request = request_config (config refreshing_client) GET ''/sobjects'' None None"
    by (simp add: cfg probe_request_def)
  have h3': "probe_request = request_config (config valid_client) GET ''/sobjects'' None None"
    by (simp add: cfg3 probe_request_def)
  have h4: "api retry_env (requests fresh_io) probe_request = Inl unauthorized"
    "api twice_env (requests fresh_io) probe_request = Inl unauthorized"
    by (simp_all add: retry_env_def twice_env_def scripted_def fresh_io_def nth_answer_def)
  have h5: "is_401 unauthorized"
    by (simp add: is_401_def unauthorized_def)
  have a: "authClient refreshing_client = Some refreshing_auth
       \<and> refreshToken refreshing_auth = Some ''refresh-token'' \<and> ''refresh-token'' \<noteq> []"
    by (simp add: refreshing_client_def refreshing_auth_def)
  have sb: "sandbox (config refreshing_client) = False"
    by (simp add: cfg token_config_def test_config_def)
  have g: "oauth retry_env (requests fresh_io @ [ApiRequest probe_request]) ?tq = Inr (Response 200 renewed)"
    "oauth twice_env (requests fresh_io @ [ApiRequest probe_request]) ?tq = Inr (Response 200 renewed)"
    by (simp_all add: retry_env_def twice_env_def scripted_def fresh_io_def nth_answer_def)
  have r: "api retry_env ((requests fresh_io @ [ApiRequest probe_request]) @ [TokenRequest ?tq])
             (probe_request\<lparr>req_authorization := ''Bearer '' @ access_token renewed\<rparr>)
           = Inr (JObj [(''success'', JBool True)])"
    "api twice_env ((requests fresh_io @ [ApiRequest probe_request]) @ [TokenRequest ?tq])
             (probe_request\<lparr>req_authorization := ''Bearer '' @ access_token renewed\<rparr>)
           = Inl unauthorized"
    by (simp_all add: retry_env_def twice_env_def scripted_def fresh_io_def nth_answer_def)
  have "?run = (fst ?run, fst (snd ?run), snd (snd ?run))" by simp
  from makeRequest_retries_once [OF h1 h2 h3 h4(1) h5 this] a g(1) sb
  have "requests (snd (snd ?run)) = (requests fresh_io @ [ApiRequest probe_request])
            @ [TokenRequest ?tq,
               ApiRequest (probe_request\<lparr>req_authorization := ''Bearer '' @ access_token renewed\<rparr>)]
        \<and> fst ?run = api retry_env ((requests fresh_io @ [ApiRequest probe_request]) @ [TokenRequest ?tq])
             (probe_request\<lparr>req_authorization := ''Bearer '' @ access_token renewed\<rparr>)"
    by (simp add: Let_def)
  with r(1) have one: "fst ?run = Inr (JObj [(''success'', JBool True)])
      \<and> requests (snd (snd ?run)) = [ApiRequest probe_request, TokenRequest ?tq,
          ApiRequest (probe_request\<lparr>req_authorization := ''Bearer new-token''\<rparr>)]"
    by (simp add: fresh_io_def renewed_def)
  have "?run2 = (fst ?run2, fst (snd ?run2), snd (snd ?run2))" by simp
  from makeRequest_retries_once [OF h1 h2 h3 h4(2) h5 this] a g(2) sb
  have "requests (snd (snd ?run2)) = (requests fresh_io @ [ApiRequest probe_request])
            @ [TokenRequest ?tq,
               ApiRequest (probe_request\<lparr>req_authorization := ''Bearer '' @ access_token renewed\<rparr>)]
        \<and> fst ?run2 = api twice_env ((requests fresh_io @ [ApiRequest probe_request]) @ [TokenRequest ?tq])
             (probe_request\<lparr>req_authorization := ''Bearer '' @ access_token renewed\<rparr>)"
    by (simp add: Let_def)
  with r(2) have two: "fst ?run2 = Inl unauthorized
      \<and> requests (snd (snd ?run2)) = [ApiRequest probe_request, TokenRequest ?tq,
          ApiRequest (probe_request\<lparr>req_authorization := ''Bearer new-token''\<rparr>)]"
    by (simp add: fresh_io_def renewed_def)
  have k1: "truthy (accessToken (config valid_client))"
    and k2: "truthy (instanceUrl (config valid_client))"
    by (simp_all add: cfg3 token_config_truthy)
  have none: "authClient valid_client = None"
    by (simp add: valid_client_def new_SalesforceClient_def)
  have msg: "handleRequestError unauthorized = JsError ''Salesforce API Error: Unauthorized''"
    by (simp add: handleRequestError_def unauthorized_def coalesce_def chain_def prop_message_def)
  have "?run3 = (fst ?run3, fst (snd ?run3), snd (snd ?run3))" by simp
  from makeRequest_retries_once [OF k1 k2 h3' h4(1) h5 this] none msg
  have three: "fst ?run3 = Inl (JsError ''Salesforce API Error: Unauthorized'')
      \<and> requests (snd (snd ?run3)) = [ApiRequest probe_request]"
    by (simp add: fresh_io_def)
  from one two three show ?thesis by simp
qed

text \<open>
  C2. While \<open>accessToken\<close> or \<open>instanceUrl\<close> is absent, \<open>makeRequest\<close> throws
  the not-authenticated error and leaves the client, the request log and the console
  as they were.
\<close>

theorem makeRequest_not_authenticated:
  assumes "\<not> truthy (accessToken (config c)) \<or> \<not> truthy (instanceUrl (config c))"
  shows "makeRequest e m path body params (c, w) =
           (Inl (JsError ''Not authenticated. Call connect() first.''), c, w)"
  using assms by (auto simp add: makeRequest_def)

theorem makeRequest_not_authenticated_witness:
  "makeRequest offline_env GET ''/sobjects'' None None (new_SalesforceClient test_config, fresh_io) =
     (Inl (JsError ''Not authenticated. Call connect() first.''),
      new_SalesforceClient test_config, fresh_io)"
  using makeRequest_not_authenticated
    [where c = "new_SalesforceClient test_config" and e = offline_env and w = fresh_io
       and m = GET and path = "''/sobjects''" and body = None and params = None]
  by (simp add: new_SalesforceClient_def test_config_def truthy_def)

subsection \<open>The credential exchanger\<close>

text \<open>
  C5. \<open>authenticate\<close> posts exactly one request: to the sandbox base when the flag
  is set and to the production base otherwise, with the password followed by the
  security token in the \<open>password\<close> field when a token is given, and the password
  alone otherwise.
\<close>

theorem authenticate_posts_grant:
  "requests (snd (snd (authenticate e usr pwd secTok sb (a, w)))) =
     requests w @
       [TokenRequest
          \<lparr>token_url = (if sb then ''https://test.salesforce.com'' else ''https://login.salesforce.com'')
                        @ ''/services/oauth2/token'',
           token_form = [(''grant_type'', ''password''),
                         (''client_id'', auth_clientId a),
                         (''client_secret'', auth_clientSecret a),
                         (''username'', usr),
                         (''password'', if secTok = [] then pwd else pwd @ secTok)],
           token_content_type = ''application/x-www-form-urlencoded''\<rparr>]"
  unfolding authenticate_requests password_grant_explicit ..

theorem authenticate_posts_grant_witness:
  "requests (snd (snd (authenticate offline_env ''u@x.com'' ''p'' ''tok'' True
       (new_SalesforcePasswordAuth ''id1'' ''sec1'', fresh_io)))) =
     [TokenRequest
        \<lparr>token_url = ''https://test.salesforce.com/services/oauth2/token'',
         token_form = [(''grant_type'', ''password''), (''client_id'', ''id1''),
                       (''client_secret'', ''sec1''), (''username'', ''u@x.com''),
                       (''password'', ''ptok'')],
         token_content_type = ''application/x-www-form-urlencoded''\<rparr>]"
  using authenticate_posts_grant
    [where e = offline_env and usr = "''u@x.com''" and pwd = "''p''" and secTok = "''tok''"
       and sb = True and a = "new_SalesforcePasswordAuth ''id1'' ''sec1''" and w = fresh_io]
  by (simp add: new_SalesforcePasswordAuth_def fresh_io_def)

text \<open>
  C6. Without a refresh token \<open>refreshAccessToken\<close> returns \<open>false\<close>, writes
  \<open>No refresh token available\<close> to the console and posts nothing.
\<close>

theorem refresh_without_token:
  assumes "\<not> truthy (refreshToken a)"
  shows "refreshAccessToken e sb (a, w) =
           (False, a, console_error [Txt (cross_mark @ '' No refresh token available'')] w)
         \<and> requests (snd (snd (refreshAccessToken e sb (a, w)))) = requests w"
  using assms by (simp add: refreshAccessToken_def truthy_def split: option.splits)

theorem refresh_without_token_witness:
  "refreshAccessToken offline_env False (new_SalesforcePasswordAuth ''id1'' ''sec1'', fresh_io) =
     (False, new_SalesforcePasswordAuth ''id1'' ''sec1'',
      \<lparr>requests = [], console = [ConsoleError [Txt (cross_mark @ '' No refresh token available'')]]\<rparr>)"
  using refresh_without_token
    [where a = "new_SalesforcePasswordAuth ''id1'' ''sec1''" and e = offline_env and sb = False
       and w = fresh_io]
  by (simp add: new_SalesforcePasswordAuth_def truthy_def fresh_io_def console_error_def)

subsection \<open>Draining a paged query\<close>

lemma queryAll_loop_step:
  assumes "has_next result"
    and "truthy (accessToken (config c))" "truthy (instanceUrl (config c))"
    and "api e (requests w) (next_page_config (config c) result) = Inr p"
  shows "queryAll_loop e result (c, w) =
           queryAll_loop e
             (result\<lparr>qr_records := qr_records result @ qr_records p,
                     qr_done := qr_done p,
                     qr_nextRecordsUrl := qr_nextRecordsUrl p,
                     qr_totalSize := qr_totalSize p\<rparr>)
             (c, w\<lparr>requests := requests w @ [ApiRequest (next_page_config (config c) result)]\<rparr>)"
proof -
  from assms(1) obtain u where u: "qr_nextRecordsUrl result = Some u" "u \<noteq> []" "\<not> qr_done result"
    by (cases "qr_nextRecordsUrl result") (auto simp add: has_next_def truthy_def)
  from assms(4) u have "api e (requests w)
      (request_config (config c) GET (replace_first ''/services/data/v58.0'' [] u) None None) = Inr p"
    by (simp add: next_page_config_def)
  from makeRequest_resolved [OF assms(2,3) this] u show ?thesis
    by (subst queryAll_loop.simps) (simp add: next_page_config_def)
qed

lemma loop_requests_Cons:
  "loop_requests cfg (x # p # ps) = next_page_config cfg x # loop_requests cfg (p # ps)"
  by (simp add: loop_requests_def)

lemma loop_requests_head:
  assumes "next_page_config cfg x = next_page_config cfg y"
  shows "loop_requests cfg (x # ps) = loop_requests cfg (y # ps)"
  using assms by (simp add: loop_requests_def)

lemma length_loop_requests [simp]: "length (loop_requests cfg (x # ps)) = length ps"
  by (simp add: loop_requests_def)

lemma queryAll_loop_pages:
  assumes "truthy (accessToken (config c))" "truthy (instanceUrl (config c))"
    and "has_next result \<longleftrightarrow> rest \<noteq> []"
    and "\<forall>i<length rest. has_next (rest ! i) \<longleftrightarrow> Suc i < length rest"
    and "\<forall>i<length rest.
           api e (requests w @ map ApiRequest (take i (loop_requests (config c) (result # rest))))
             (loop_requests (config c) (result # rest) ! i) = Inr (rest ! i)"
  shows "queryAll_loop e result (c, w) =
           Some (Inr (result\<lparr>qr_records := qr_records result @ concat (map qr_records rest),
                             qr_done := qr_done (last (result # rest)),
                             qr_nextRecordsUrl := qr_nextRecordsUrl (last (result # rest)),
                             qr_totalSize := qr_totalSize (last (result # rest))\<rparr>),
                 c,
                 w\<lparr>requests := requests w @ map ApiRequest (loop_requests (config c) (result # rest))\<rparr>)"
  using assms(3-)
proof (induction rest arbitrary: result w)
  case Nil
  then show ?case by (simp add: queryAll_loop_stop loop_requests_def)
next
  case (Cons p ps)
  let ?result' = "result\<lparr>qr_records := qr_records result @ qr_records p,
                     qr_done := qr_done p,
                     qr_nextRecordsUrl := qr_nextRecordsUrl p,
                     qr_totalSize := qr_totalSize p\<rparr>"
  let ?w' = "w\<lparr>requests := requests w @ [ApiRequest (next_page_config (config c) result)]\<rparr>"
  from Cons.prems(1) have more: "has_next result" by simp
  have "0 < length (p # ps)" by simp
  with Cons.prems(3)
  have "api e (requests w @ map ApiRequest (take 0 (loop_requests (config c) (result # p # ps))))
             (loop_requests (config c) (result # p # ps) ! 0) = Inr ((p # ps) ! 0)"
    by blast
  then have served0: "api e (requests w) (next_page_config (config c) result) = Inr p"
    by (simp add: loop_requests_Cons)
  from queryAll_loop_step [OF more assms(1,2) served0]
  have step: "queryAll_loop e result (c, w) = queryAll_loop e ?result' (c, ?w')" .
  have "0 < length (p # ps)" by simp
  with Cons.prems(2) have "has_next ((p # ps) ! 0) \<longleftrightarrow> Suc 0 < length (p # ps)" by blast
  then have p: "has_next p \<longleftrightarrow> ps \<noteq> []" by simp
  have a: "has_next ?result' \<longleftrightarrow> ps \<noteq> []"
    using p by (simp add: has_next_def)
  have b: "\<forall>i<length ps. has_next (ps ! i) \<longleftrightarrow> Suc i < length ps"
  proof (intro allI impI)
    fix i assume "i < length ps"
    then have "Suc i < length (p # ps)" by simp
    with Cons.prems(2) have "has_next ((p # ps) ! Suc i) \<longleftrightarrow> Suc (Suc i) < length (p # ps)" by blast
    then show "has_next (ps ! i) \<longleftrightarrow> Suc i < length ps" by simp
  qed
  have npc: "next_page_config (config c) ?result' = next_page_config (config c) p"
    by (simp add: next_page_config_def)
  note lr = loop_requests_head [OF npc, of ps]
  have c: "\<forall>i<length ps.
           api e (requests ?w' @ map ApiRequest (take i (loop_requests (config c) (?result' # ps))))
             (loop_requests (config c) (?result' # ps) ! i) = Inr (ps ! i)"
  proof (intro allI impI)
    fix i assume "i < length ps"
    then have "Suc i < length (p # ps)" by simp
    with Cons.prems(3)
    have "api e (requests w @ map ApiRequest (take (Suc i) (loop_requests (config c) (result # p # ps))))
             (loop_requests (config c) (result # p # ps) ! Suc i) = Inr ((p # ps) ! Suc i)"
      by blast
    then show "api e (requests ?w' @ map ApiRequest (take i (loop_requests (config c) (?result' # ps))))
             (loop_requests (config c) (?result' # ps) ! i) = Inr (ps ! i)"
      by (simp add: loop_requests_Cons lr)
  qed
  show ?case
    unfolding step Cons.IH [OF a b c] lr
    by (cases ps) (simp_all add: loop_requests_def)
qed

lemma valid_client_truthy:
  "truthy (accessToken (config valid_client))" "truthy (instanceUrl (config valid_client))"
  by (simp_all add: valid_client_def new_SalesforceClient_def token_config_truthy)

lemma all_less_Suc: "(\<forall>i<Suc n. P i) \<longleftrightarrow> P 0 \<and> (\<forall>i<n. P (Suc i))"
  by (auto simp add: less_Suc_eq_0_disj)

text \<open>
  C3. For an authenticated client and a result of one or more pages, each but the last
  continuing and the last one either done or without a locator, served in order:
  \<open>queryAll\<close> returns, its records are those of all pages in order, and it issues
  one request per page, the first for the query and each later one for the locator of
  the page before.
\<close>

theorem queryAll_drains_pages:
  assumes auth: "truthy (accessToken (config c))" "truthy (instanceUrl (config c))"
    and nonempty: "pages \<noteq> []"
    and shape: "\<forall>i<length pages. has_next (pages ! i) \<longleftrightarrow> Suc i < length pages"
    and served: "\<forall>i<length pages.
                   api e (requests w @ map ApiRequest (take i (query_requests (config c) q pages)))
                     (query_requests (config c) q pages ! i) = Inr (pages ! i)"
  shows "queryAll e q (c, w) =
           Some (Inr \<lparr>qr_totalSize = qr_totalSize (last pages),
                      qr_done = qr_done (last pages),
                      qr_records = concat (map qr_records pages),
                      qr_nextRecordsUrl = qr_nextRecordsUrl (last pages)\<rparr>,
                 c,
                 w\<lparr>requests := requests w @ map ApiRequest (query_requests (config c) q pages)\<rparr>)
         \<and> length (query_requests (config c) q pages) = length pages"
proof -
  from nonempty obtain p ps where pages: "pages = p # ps" by (cases pages) auto
  let ?rq = "request_config (config c) GET ''/query'' None (Some [(''q'', JStr q)])"
  let ?w' = "w\<lparr>requests := requests w @ [ApiRequest ?rq]\<rparr>"
  have qr: "query_requests (config c) q pages = ?rq # loop_requests (config c) (p # ps)"
    by (simp add: query_requests_def pages)
  have "0 < length pages" using nonempty by simp
  with served
  have "api e (requests w @ map ApiRequest (take 0 (query_requests (config c) q pages)))
                     (query_requests (config c) q pages ! 0) = Inr (pages ! 0)"
    by blast
  then have "api e (requests w) ?rq = Inr p" by (simp add: qr) (simp add: pages)
  from makeRequest_resolved [OF auth this]
  have first: "query e q (c, w) = (Inr p, c, ?w')"
    by (simp add: query_def)
  have "0 < length pages" using nonempty by simp
  with shape have "has_next (pages ! 0) \<longleftrightarrow> Suc 0 < length pages" by blast
  then have a: "has_next p \<longleftrightarrow> ps \<noteq> []" by (simp add: pages)
  have b: "\<forall>i<length ps. has_next (ps ! i) \<longleftrightarrow> Suc i < length ps"
  proof (intro allI impI)
    fix i assume "i < length ps"
    then have "Suc i < length pages" by (simp add: pages)
    with shape have "has_next (pages ! Suc i) \<longleftrightarrow> Suc (Suc i) < length pages" by blast
    then show "has_next (ps ! i) \<longleftrightarrow> Suc i < length ps" by (simp add: pages)
  qed
  have c: "\<forall>i<length ps.
           api e (requests ?w' @ map ApiRequest (take i (loop_requests (config c) (p # ps))))
             (loop_requests (config c) (p # ps) ! i) = Inr (ps ! i)"
  proof (intro allI impI)
    fix i assume "i < length ps"
    then have "Suc i < length pages" by (simp add: pages)
    with served
    have "api e (requests w @ map ApiRequest (take (Suc i) (query_requests (config c) q pages)))
                     (query_requests (config c) q pages ! Suc i) = Inr (pages ! Suc i)"
      by blast
    then show "api e (requests ?w' @ map ApiRequest (take i (loop_requests (config c) (p # ps))))
             (loop_requests (config c) (p # ps) ! i) = Inr (ps ! i)"
      by (simp add: qr) (simp add: pages)
  qed
  have "queryAll e q (c, w) = queryAll_loop e p (c, ?w')"
    by (simp add: queryAll_def first)
  also note queryAll_loop_pages [OF auth a b c]
  finally have "queryAll e q (c, w) =
           Some (Inr \<lparr>qr_totalSize = qr_totalSize (last pages),
                      qr_done = qr_done (last pages),
                      qr_records = concat (map qr_records pages),
                      qr_nextRecordsUrl = qr_nextRecordsUrl (last pages)\<rparr>,
                 c,
                 w\<lparr>requests := requests w @ map ApiRequest (query_requests (config c) q pages)\<rparr>)"
    by (cases ps) (simp_all add: qr, simp_all add: pages)
  moreover have "length (query_requests (config c) q pages) = length pages"
    by (simp add: qr) (simp add: pages)
  ultimately show ?thesis by simp
qed

theorem queryAll_drains_pages_witness:
  "queryAll paged_env ''SELECT Id, Name FROM Account'' (valid_client, fresh_io) =
     Some (Inr \<lparr>qr_totalSize = 3, qr_done = True,
                qr_records = [''Account 1'', ''Account 2'', ''Account 3''],
                qr_nextRecordsUrl = None\<rparr>,
           valid_client,
           \<lparr>requests =
              [ApiRequest (request_config token_config GET ''/query'' None
                 (Some [(''q'', JStr ''SELECT Id, Name FROM Account'')])),
               ApiRequest (request_config token_config GET ''/query/01g-2000'' None None),
               ApiRequest (request_config token_config GET ''/query/01g-4000'' None None)],
            console = []\<rparr>)
   \<and> queryAll stalled_env ''SELECT Id, Name FROM Account'' (valid_client, fresh_io) =
     Some (Inr stalled_page, valid_client,
           \<lparr>requests =
              [ApiRequest (request_config token_config GET ''/query'' None
                 (Some [(''q'', JStr ''SELECT Id, Name FROM Account'')]))],
            console = []\<rparr>)"
proof -
  let ?q = "''SELECT Id, Name FROM Account''"
  let ?pages = "[page1, page2, page3]"
  have cfg: "config valid_client = token_config"
    by (simp add: valid_client_def new_SalesforceClient_def)
  have rqs: "query_requests token_config ?q ?pages =
       [request_config token_config GET ''/query'' None (Some [(''q'', JStr ?q)]),
        request_config token_config GET ''/query/01g-2000'' None None,
        request_config token_config GET ''/query/01g-4000'' None None]"
    by (simp add: query_requests_def loop_requests_def next_page_config_def page1_def page2_def)
  have shape: "\<forall>i<length ?pages. has_next (?pages ! i) \<longleftrightarrow> Suc i < length ?pages"
    by (simp add: all_less_Suc has_next_def truthy_def page1_def page2_def page3_def)
  have served: "\<forall>i<length ?pages.
       api paged_env (requests fresh_io @ map ApiRequest (take i (query_requests (config valid_client) ?q ?pages)))
         (query_requests (config valid_client) ?q ?pages ! i) = Inr (?pages ! i)"
    unfolding cfg rqs
    by (simp add: all_less_Suc paged_env_def scripted_def nth_answer_def fresh_io_def)
  have one: "queryAll paged_env ?q (valid_client, fresh_io) =
      Some (Inr \<lparr>qr_totalSize = 3, qr_done = True,
                qr_records = [''Account 1'', ''Account 2'', ''Account 3''],
                qr_nextRecordsUrl = None\<rparr>,
           valid_client,
           \<lparr>requests = map ApiRequest (query_requests token_config ?q ?pages), console = []\<rparr>)"
    using queryAll_drains_pages [OF valid_client_truthy _ shape served]
    by (simp add: cfg fresh_io_def page1_def page2_def page3_def)
  have rqs2: "query_requests token_config ?q [stalled_page] =
       [request_config token_config GET ''/query'' None (Some [(''q'', JStr ?q)])]"
    by (simp add: query_requests_def loop_requests_def)
  have shape2: "\<forall>i<length [stalled_page]. has_next ([stalled_page] ! i) \<longleftrightarrow> Suc i < length [stalled_page]"
    by (simp add: has_next_def truthy_def stalled_page_def)
  have served2: "\<forall>i<length [stalled_page].
       api stalled_env (requests fresh_io @ map ApiRequest (take i (query_requests (config valid_client) ?q [stalled_page])))
         (query_requests (config valid_client) ?q [stalled_page] ! i) = Inr ([stalled_page] ! i)"
    unfolding cfg rqs2
    by (simp add: stalled_env_def scripted_def nth_answer_def fresh_io_def)
  have two: "queryAll stalled_env ?q (valid_client, fresh_io) =
      Some (Inr stalled_page, valid_client,
           \<lparr>requests = map ApiRequest (query_requests token_config ?q [stalled_page]), console = []\<rparr>)"
    using queryAll_drains_pages [OF valid_client_truthy _ shape2 served2]
    by (simp add: cfg fresh_io_def stalled_page_def)
  from one two show ?thesis
    unfolding rqs rqs2 by simp
qed

subsection \<open>The metadata cache\<close>

lemma tryTokenRefresh_cache [simp]:
  "sobjectsCache (fst (snd (tryTokenRefresh e (c, w)))) = sobjectsCache c"
  by (simp add: tryTokenRefresh_def Let_def split: option.split prod.split)

lemma makeRequest_cache [simp]:
  "sobjectsCache (fst (snd (makeRequest e m path body params (c, w)))) = sobjectsCache c"
proof -
  have "sobjectsCache c2 = sobjectsCache c"
    if "tryTokenRefresh e (c, w1) = (ok, c2, w2)" for w1 ok c2 w2
    using tryTokenRefresh_cache [of e c w1] that by simp
  then show ?thesis
    by (simp add: makeRequest_def axios_def Let_def split: sum.split prod.split)
qed

lemma makeRequest_cache':
  assumes "makeRequest e m path body params (c, w) = (r, c', w')"
  shows "sobjectsCache c' = sobjectsCache c"
  using makeRequest_cache [of e m path body params c w] assms by simp

lemma tryAccessTokenAuth_cache [simp]:
  "sobjectsCache (fst (snd (tryAccessTokenAuth e (c, w)))) = sobjectsCache c"
proof -
  have "sobjectsCache c' = sobjectsCache c"
    if "makeRequest e GET ''/sobjects'' None None (c, w1) = (r, c', w')" for w1 r c' w'
    using that by (rule makeRequest_cache')
  then show ?thesis
    by (simp add: tryAccessTokenAuth_def Let_def split: sum.split prod.split)
qed

lemma tryUsernamePasswordAuth_cache [simp]:
  "sobjectsCache (fst (snd (tryUsernamePasswordAuth e (c, w)))) = sobjectsCache c"
  by (simp add: tryUsernamePasswordAuth_def Let_def split: prod.split)

lemma connect_cache [simp]:
  "sobjectsCache (fst (snd (connect e (c, w)))) = sobjectsCache c"
proof -
  obtain ok1 c1 w1 where 1: "tryAccessTokenAuth e (c, w) = (ok1, c1, w1)"
    by (cases "tryAccessTokenAuth e (c, w)") auto
  obtain ok2 c2 w2 where 2: "tryUsernamePasswordAuth e (c1, w1) = (ok2, c2, w2)"
    by (cases "tryUsernamePasswordAuth e (c1, w1)") auto
  from 1 tryAccessTokenAuth_cache [of e c w] have c1: "sobjectsCache c1 = sobjectsCache c" by simp
  from 2 tryUsernamePasswordAuth_cache [of e c1 w1] have c2: "sobjectsCache c2 = sobjectsCache c1" by simp
  show ?thesis
    by (simp add: connect_def 1 2 c1 c2 handleAuthFailure_def)
qed

lemma queryAll_loop_cache:
  assumes "queryAll_loop e result s = Some out"
  shows "sobjectsCache (fst (snd out)) = sobjectsCache (fst s)"
  using assms
proof (induction rule: queryAll_loop.raw_induct [rotated -1, consumes 1])
  case (1 f e result s out)
  obtain c0 w0 where s: "s = (c0, w0)" by (cases s)
  show ?case
  proof (cases "has_next result")
    case False
    with 1(2) show ?thesis
      by (auto simp add: has_next_def truthy_def split: option.splits if_splits)
  next
    case True
    then obtain u where u: "qr_nextRecordsUrl result = Some u" "u \<noteq> []" "\<not> qr_done result"
      by (cases "qr_nextRecordsUrl result") (auto simp add: has_next_def truthy_def)
    obtain r1 c1 w1 where m: "makeRequest e GET (replace_first ''/services/data/v58.0'' [] u)
          None None (c0, w0) = (r1, c1, w1)"
      by (cases "makeRequest e GET (replace_first ''/services/data/v58.0'' [] u) None None (c0, w0)") auto
    from makeRequest_cache' [OF m] have c1: "sobjectsCache c1 = sobjectsCache c0" .
    show ?thesis
    proof (cases r1)
      case (Inl err)
      with 1(2) u m s c1 show ?thesis by auto
    next
      case (Inr nextResult)
      with 1(2) u m s have "f e (result\<lparr>qr_records := qr_records result @ qr_records nextResult,
                          qr_done := qr_done nextResult,
                          qr_nextRecordsUrl := qr_nextRecordsUrl nextResult,
                          qr_totalSize := qr_totalSize nextResult\<rparr>) (c1, w1) = Some out"
        by simp
      from 1(1) [OF this] c1 s show ?thesis by simp
    qed
  qed
qed

lemma queryAll_cache:
  assumes "queryAll e q (c, w) = Some (r, c', w')"
  shows "sobjectsCache c' = sobjectsCache c"
proof -
  obtain r1 c1 w1 where m: "query e q (c, w) = (r1, c1, w1)"
    by (cases "query e q (c, w)") auto
  then have c1: "sobjectsCache c1 = sobjectsCache c"
    unfolding query_def by (rule makeRequest_cache')
  show ?thesis
  proof (cases r1)
    case (Inl err)
    with assms m c1 show ?thesis by (simp add: queryAll_def)
  next
    case (Inr result)
    with assms m have "queryAll_loop e result (c1, w1) = Some (r, c', w')"
      by (simp add: queryAll_def)
    from queryAll_loop_cache [OF this] c1 show ?thesis by simp
  qed
qed

lemma getObjectFields_keeps:
  assumes "sobjectsCache c n = Some fs"
  shows "sobjectsCache (fst (snd (getObjectFields e other (c, w)))) n = Some fs"
proof (cases "sobjectsCache c other")
  case (Some cached)
  with assms show ?thesis by (simp add: getObjectFields_def)
next
  case None
  with assms have ne: "other \<noteq> n" by auto
  obtain r1 c1 w1 where m: "makeRequest e GET (''/sobjects/'' @ other @ ''/describe'') None None (c, w) = (r1, c1, w1)"
    by (cases "makeRequest e GET (''/sobjects/'' @ other @ ''/describe'') None None (c, w)") auto
  from makeRequest_cache' [OF m] have "sobjectsCache c1 = sobjectsCache c" .
  with assms None m ne show ?thesis
    by (cases r1) (simp_all add: getObjectFields_def Let_def)
qed

lemma getObjectFields_first:
  assumes "sobjectsCache c n = None"
    and "truthy (accessToken (config c))" "truthy (instanceUrl (config c))"
    and "api e (requests w)
           (request_config (config c) GET (''/sobjects/'' @ n @ ''/describe'') None None) = Inr metadata"
  shows "getObjectFields e n (c, w) =
           (Inr (map filteredField (md_fields metadata)),
            c\<lparr>sobjectsCache := (sobjectsCache c)(n \<mapsto> map filteredField (md_fields metadata))\<rparr>,
            w\<lparr>requests := requests w @
                 [ApiRequest (request_config (config c) GET (''/sobjects/'' @ n @ ''/describe'') None None)]\<rparr>)"
  using assms(1) makeRequest_resolved [OF assms(2,3,4)]
  by (simp add: getObjectFields_def Let_def)

lemma getObjectFields_again:
  assumes "getObjectFields e n (c, w) = (Inr fs, c1, w1)"
  shows "getObjectFields e' n (c1, w2) = (Inr fs, c1, w2)"
proof (cases "sobjectsCache c n")
  case (Some cached)
  with assms have "cached = fs" "c1 = c" by (simp_all add: getObjectFields_def)
  with Some show ?thesis by (simp add: getObjectFields_def)
next
  case None
  obtain r1 c' w' where m: "makeRequest e GET (''/sobjects/'' @ n @ ''/describe'') None None (c, w) = (r1, c', w')"
    by (cases "makeRequest e GET (''/sobjects/'' @ n @ ''/describe'') None None (c, w)") auto
  with assms None have "sobjectsCache c1 n = Some fs"
    by (cases r1) (auto simp add: getObjectFields_def Let_def)
  then show ?thesis by (simp add: getObjectFields_def)
qed

lemma search_cache [simp]:
  "sobjectsCache (fst (snd (search e q (c, w)))) = sobjectsCache c"
proof -
  obtain r1 c1 w1 where m: "makeRequest e GET ''/search'' None (Some [(''q'', JStr q)]) (c, w) = (r1, c1, w1)"
    by (cases "makeRequest e GET ''/search'' None (Some [(''q'', JStr q)]) (c, w)") auto
  from makeRequest_cache' [OF m] m show ?thesis
    by (cases r1) (simp_all add: search_def)
qed

lemma updateRecord_cache [simp]:
  "sobjectsCache (fst (snd (updateRecord e n i body (c, w)))) = sobjectsCache c"
proof -
  obtain r1 c1 w1 where m: "makeRequest e PATCH (''/sobjects/'' @ n @ ''/'' @ i) (Some body) None (c, w) = (r1, c1, w1)"
    by (cases "makeRequest e PATCH (''/sobjects/'' @ n @ ''/'' @ i) (Some body) None (c, w)") auto
  from makeRequest_cache' [OF m] m show ?thesis
    by (cases r1) (simp_all add: updateRecord_def)
qed

lemma deleteRecord_cache [simp]:
  "sobjectsCache (fst (snd (deleteRecord e n i (c, w)))) = sobjectsCache c"
proof -
  obtain r1 c1 w1 where m: "makeRequest e DELETE (''/sobjects/'' @ n @ ''/'' @ i) None None (c, w) = (r1, c1, w1)"
    by (cases "makeRequest e DELETE (''/sobjects/'' @ n @ ''/'' @ i) None None (c, w)") auto
  from makeRequest_cache' [OF m] m show ?thesis
    by (cases r1) (simp_all add: deleteRecord_def)
qed

lemma toolingExecute_cache [simp]:
  "sobjectsCache (fst (snd (toolingExecute e action m body (c, w)))) = sobjectsCache c"
  by (simp add: toolingExecute_def axios_def)

lemma apexExecute_cache [simp]:
  "sobjectsCache (fst (snd (apexExecute e action m body (c, w)))) = sobjectsCache c"
  by (simp add: apexExecute_def axios_def)

text \<open>
  C4. The first \<open>getObjectFields\<close> for a name issues the describe request and stores
  the extracted fields under that name; once a call for a name has succeeded, every
  later call for it returns the same fields and leaves the client, the request log and
  the console untouched, whatever the service would answer; and no operation of the
  client changes an entry the cache holds.
\<close>

theorem metadata_cache:
  "(sobjectsCache c n = None \<and> truthy (accessToken (config c)) \<and> truthy (instanceUrl (config c))
      \<and> api e (requests w)
            (request_config (config c) GET (''/sobjects/'' @ n @ ''/describe'') None None) = Inr metadata
    \<longrightarrow> getObjectFields e n (c, w) =
           (Inr (map filteredField (md_fields metadata)),
            c\<lparr>sobjectsCache := (sobjectsCache c)(n \<mapsto> map filteredField (md_fields metadata))\<rparr>,
            w\<lparr>requests := requests w @
                 [ApiRequest (request_config (config c) GET (''/sobjects/'' @ n @ ''/describe'') None None)]\<rparr>))
   \<and> (getObjectFields e n (c, w) = (Inr fs, c1, w1)
        \<longrightarrow> getObjectFields e' n (c1, w2) = (Inr fs, c1, w2))
   \<and> (sobjectsCache c n = Some fs \<longrightarrow>
          sobjectsCache (fst (snd (connect ea (c, w)))) n = Some fs
        \<and> sobjectsCache (fst (snd (makeRequest eb m path body params (c, w)))) n = Some fs
        \<and> sobjectsCache (fst (snd (query ec q (c, w)))) n = Some fs
        \<and> (\<forall>r c' w'. queryAll ec q (c, w) = Some (r, c', w') \<longrightarrow> sobjectsCache c' n = Some fs)
        \<and> sobjectsCache (fst (snd (search ed q (c, w)))) n = Some fs
        \<and> sobjectsCache (fst (snd (getObjectFields e other (c, w)))) n = Some fs
        \<and> sobjectsCache (fst (snd (getRecord eb other i fieldNames (c, w)))) n = Some fs
        \<and> sobjectsCache (fst (snd (createRecord eb other rec (c, w)))) n = Some fs
        \<and> sobjectsCache (fst (snd (updateRecord eb other i rec (c, w)))) n = Some fs
        \<and> sobjectsCache (fst (snd (deleteRecord eb other i (c, w)))) n = Some fs
        \<and> sobjectsCache (fst (snd (toolingExecute eb action m body (c, w)))) n = Some fs
        \<and> sobjectsCache (fst (snd (apexExecute eb action m body (c, w)))) n = Some fs
        \<and> sobjectsCache (fst (snd (restful eb path m params body (c, w)))) n = Some fs)"
proof (intro conjI impI allI)
  assume "sobjectsCache c n = None \<and> truthy (accessToken (config c)) \<and> truthy (instanceUrl (config c))
      \<and> api e (requests w)
            (request_config (config c) GET (''/sobjects/'' @ n @ ''/describe'') None None) = Inr metadata"
  then show "getObjectFields e n (c, w) =
           (Inr (map filteredField (md_fields metadata)),
            c\<lparr>sobjectsCache := (sobjectsCache c)(n \<mapsto> map filteredField (md_fields metadata))\<rparr>,
            w\<lparr>requests := requests w @
                 [ApiRequest (request_config (config c) GET (''/sobjects/'' @ n @ ''/describe'') None None)]\<rparr>)"
    by (intro getObjectFields_first) simp_all
next
  assume "getObjectFields e n (c, w) = (Inr fs, c1, w1)"
  then show "getObjectFields e' n (c1, w2) = (Inr fs, c1, w2)"
    by (rule getObjectFields_again)
next
  fix r c' w'
  assume "sobjectsCache c n = Some fs" "queryAll ec q (c, w) = Some (r, c', w')"
  then show "sobjectsCache c' n = Some fs"
    using queryAll_cache [of ec q c w r c' w'] by simp
next
  assume "sobjectsCache c n = Some fs"
  then show "sobjectsCache (fst (snd (getObjectFields e other (c, w)))) n = Some fs"
    by (rule getObjectFields_keeps)
qed (simp_all add: query_def getRecord_def createRecord_def restful_def Let_def)

theorem metadata_cache_witness:
  "getObjectFields describe_env ''Account'' (valid_client, fresh_io) =
     (Inr account_fields,
      valid_client\<lparr>sobjectsCache := [''Account'' \<mapsto> account_fields]\<rparr>,
      \<lparr>requests = [ApiRequest describe_request], console = []\<rparr>)
   \<and> getObjectFields describe_env ''Account''
       (valid_client\<lparr>sobjectsCache := [''Account'' \<mapsto> account_fields]\<rparr>,
        \<lparr>requests = [ApiRequest describe_request], console = []\<rparr>) =
     (Inr account_fields,
      valid_client\<lparr>sobjectsCache := [''Account'' \<mapsto> account_fields]\<rparr>,
      \<lparr>requests = [ApiRequest describe_request], console = []\<rparr>)
   \<and> sobjectsCache (fst (snd (connect describe_env
        (valid_client\<lparr>sobjectsCache := [''Account'' \<mapsto> account_fields]\<rparr>,
         \<lparr>requests = [ApiRequest describe_request], console = []\<rparr>)))) ''Account''
     = Some account_fields"
proof -
  let ?c1 = "valid_client\<lparr>sobjectsCache := [''Account'' \<mapsto> account_fields]\<rparr>"
  let ?w1 = "\<lparr>requests = [ApiRequest describe_request], console = []\<rparr>"
  have cfg: "config valid_client = token_config"
    by (simp add: valid_client_def new_SalesforceClient_def)
  have empty: "sobjectsCache valid_client = Map.empty"
    by (simp add: valid_client_def new_SalesforceClient_def)
  have served: "api describe_env (requests fresh_io)
      (request_config (config valid_client) GET (''/sobjects/'' @ ''Account'' @ ''/describe'') None None)
        = Inr account_metadata"
    by (simp add: describe_env_def scripted_def nth_answer_def fresh_io_def)
  note T = metadata_cache [where c = valid_client and n = "''Account''" and e = describe_env
      and e' = describe_env and w = fresh_io and metadata = account_metadata
      and fs = account_fields and ?c1.0 = ?c1 and ?w1.0 = ?w1 and ?w2.0 = ?w1]
  from T valid_client_truthy served empty
  have first: "getObjectFields describe_env ''Account'' (valid_client, fresh_io) =
                 (Inr account_fields, ?c1, ?w1)"
    by (simp add: cfg account_fields_def describe_request_def fresh_io_def)
  with T have second: "getObjectFields describe_env ''Account'' (?c1, ?w1) = (Inr account_fields, ?c1, ?w1)"
    by blast
  have "sobjectsCache ?c1 ''Account'' = Some account_fields" by simp
  with metadata_cache [where c = ?c1 and n = "''Account''" and fs = account_fields
      and ea = describe_env and w = ?w1]
  have third: "sobjectsCache (fst (snd (connect describe_env (?c1, ?w1)))) ''Account'' = Some account_fields"
    by blast
  from first second third show ?thesis by simp
qed

subsection \<open>Renewal and the stored refresh token\<close>

text \<open>
  C7, as the claim states it, fails where the answer to a refresh grant carries a
  \<open>refresh_token\<close>: \<open>refreshAccessToken\<close> reads \<open>access_token\<close> and
  \<open>instance_url\<close> only and keeps the refresh token it held.
\<close>

theorem refresh_keeps_refresh_token_counterexample:
  "refreshAccessToken rotating_env False (refreshing_auth, fresh_io) =
     (True,
      refreshing_auth\<lparr>auth_accessToken := Some ''new-access-token'',
                       auth_instanceUrl := Some ''https://test.salesforce.com''\<rparr>,
      \<lparr>requests = [TokenRequest (refresh_grant refreshing_auth ''refresh-token'' False)],
       console = []\<rparr>)
   \<and> oauth rotating_env (requests fresh_io) (refresh_grant refreshing_auth ''refresh-token'' False)
       = Inr (Response 200 rotating_grant)
   \<and> refresh_token rotating_grant = Some ''new-refresh-token''
   \<and> refreshToken (fst (snd (refreshAccessToken rotating_env False (refreshing_auth, fresh_io))))
       = Some ''refresh-token''"
  by (simp add: refreshAccessToken_def refreshing_auth_def new_SalesforcePasswordAuth_def
      rotating_env_def scripted_def nth_answer_def fresh_io_def axios_post_def debugLog_def
      rotating_grant_def)

text \<open>
  C7, amended. A call of \<open>refreshAccessToken\<close> that returns \<open>true\<close> held a
  refresh token, got status 200 for its refresh grant, and replaced \<open>accessToken\<close>
  and \<open>instanceUrl\<close> from that answer; the refresh token, the client id and the
  client secret are what they were, whether or not the answer carries a refresh token.
\<close>

theorem refresh_replaces_session:
  assumes "refreshAccessToken e sb (a, w) = (True, a', w')"
  shows "\<exists>rt body. refreshToken a = Some rt \<and> rt \<noteq> []
           \<and> oauth e (requests w) (refresh_grant a rt sb) = Inr (Response 200 body)
           \<and> a' = a\<lparr>auth_accessToken := Some (access_token body),
                     auth_instanceUrl := Some (instance_url body)\<rparr>
           \<and> refreshToken a' = refreshToken a
           \<and> auth_clientId a' = auth_clientId a
           \<and> auth_clientSecret a' = auth_clientSecret a"
proof (cases "refreshToken a")
  case None
  with assms show ?thesis by (simp add: refreshAccessToken_def)
next
  case (Some rt)
  show ?thesis
  proof (cases "rt = []")
    case True
    with Some assms show ?thesis by (simp add: refreshAccessToken_def)
  next
    case False
    show ?thesis
    proof (cases "oauth e (requests w) (refresh_grant a rt sb)")
      case (Inl err)
      with Some False assms show ?thesis
        by (simp add: refreshAccessToken_def axios_post_def Let_def)
    next
      case (Inr resp)
      obtain status body where resp: "resp = Response status body" by (cases resp)
      with Inr Some False assms have "status = 200"
        by (simp add: refreshAccessToken_def axios_post_def Let_def split: if_splits)
      with resp Inr Some False assms show ?thesis
        by (auto simp add: refreshAccessToken_def axios_post_def Let_def)
    qed
  qed
qed

theorem refresh_replaces_session_witness:
  "fst (refreshAccessToken rotating_env False (refreshing_auth, fresh_io))
   \<and> auth_accessToken (fst (snd (refreshAccessToken rotating_env False (refreshing_auth, fresh_io))))
       = Some ''new-access-token''
   \<and> auth_instanceUrl (fst (snd (refreshAccessToken rotating_env False (refreshing_auth, fresh_io))))
       = Some ''https://test.salesforce.com''
   \<and> refreshToken (fst (snd (refreshAccessToken rotating_env False (refreshing_auth, fresh_io))))
       = refreshToken refreshing_auth"
proof -
  let ?run = "refreshAccessToken rotating_env False (refreshing_auth, fresh_io)"
  have ok: "fst ?run"
    by (simp add: refreshAccessToken_def refreshing_auth_def new_SalesforcePasswordAuth_def
      rotating_env_def scripted_def nth_answer_def fresh_io_def axios_post_def debugLog_def)
  then have "?run = (True, fst (snd ?run), snd (snd ?run))"
    by (cases ?run) simp
  from refresh_replaces_session [OF this]
  obtain rt body where "oauth rotating_env (requests fresh_io) (refresh_grant refreshing_auth rt False)
        = Inr (Response 200 body)"
    and "fst (snd ?run) = refreshing_auth\<lparr>auth_accessToken := Some (access_token body),
                     auth_instanceUrl := Some (instance_url body)\<rparr>"
    and "refreshToken (fst (snd ?run)) = refreshToken refreshing_auth"
    by blast
  moreover from this(1) have "body = rotating_grant"
    by (simp add: rotating_env_def scripted_def nth_answer_def fresh_io_def)
  ultimately show ?thesis using ok
    by (simp add: rotating_grant_def)
qed

subsection \<open>Connecting\<close>

lemma handleAuthFailure_lines:
  "handleAuthFailure e (c, w) =
     (False, c, if debug_enabled e then w\<lparr>console := console w @ no_method_lines\<rparr> else w)"
  by (simp add: handleAuthFailure_def errorLog_def console_error_def no_method_lines_def)

lemma is_exchange_simps [simp]:
  "\<not> is_exchange (ApiRequest r)"
  "\<not> is_exchange (TokenRequest (refresh_grant a rt sb))"
  "is_exchange (TokenRequest (password_grant a usr pwd secTok sb))"
  by (simp_all add: is_exchange_def refresh_grant_def password_grant_def Let_def)

lemma refreshAccessToken_requests:
  "requests (snd (snd (refreshAccessToken e sb (a, w)))) =
     requests w @ (case refreshToken a of
                     None \<Rightarrow> []
                   | Some rt \<Rightarrow> if rt = [] then [] else [TokenRequest (refresh_grant a rt sb)])"
  by (simp add: refreshAccessToken_def axios_post_def Let_def
      split: option.split sum.split response.split)

lemma refreshAccessToken_no_exchange:
  "filter is_exchange (requests (snd (snd (refreshAccessToken e sb (a, w)))))
     = filter is_exchange (requests w)"
  unfolding refreshAccessToken_requests by (simp split: option.split)

lemma tryTokenRefresh_frame:
  "filter is_exchange (requests (snd (snd (tryTokenRefresh e (c, w))))) = filter is_exchange (requests w)
   \<and> username (config (fst (snd (tryTokenRefresh e (c, w))))) = username (config c)
   \<and> password (config (fst (snd (tryTokenRefresh e (c, w))))) = password (config c)
   \<and> clientId (config (fst (snd (tryTokenRefresh e (c, w))))) = clientId (config c)
   \<and> clientSecret (config (fst (snd (tryTokenRefresh e (c, w))))) = clientSecret (config c)
   \<and> securityToken (config (fst (snd (tryTokenRefresh e (c, w))))) = securityToken (config c)
   \<and> sandbox (config (fst (snd (tryTokenRefresh e (c, w))))) = sandbox (config c)"
proof (cases "authClient c")
  case None
  then show ?thesis by (simp add: tryTokenRefresh_def)
next
  case (Some a)
  show ?thesis
  proof (cases "truthy (refreshToken a)")
    case False
    with Some show ?thesis by (simp add: tryTokenRefresh_def)
  next
    case True
    let ?w1 = "debugLog e (arrows_sign @ '' Attempting to refresh access token...'') w"
    obtain ok a' w2 where r: "refreshAccessToken e (sandbox (config c)) (a, ?w1) = (ok, a', w2)"
      by (cases "refreshAccessToken e (sandbox (config c)) (a, ?w1)") auto
    from refreshAccessToken_no_exchange [of e "sandbox (config c)" a ?w1] r
    have "filter is_exchange (requests w2) = filter is_exchange (requests w)" by simp
    with Some True r show ?thesis by (simp add: tryTokenRefresh_def)
  qed
qed

lemma makeRequest_frame:
  assumes "makeRequest e m path body params (c, w) = (r, c', w')"
  shows "filter is_exchange (requests w') = filter is_exchange (requests w)
   \<and> username (config c') = username (config c)
   \<and> password (config c') = password (config c)
   \<and> clientId (config c') = clientId (config c)
   \<and> clientSecret (config c') = clientSecret (config c)
   \<and> securityToken (config c') = securityToken (config c)
   \<and> sandbox (config c') = sandbox (config c)"
proof (cases "\<not> truthy (accessToken (config c)) \<or> \<not> truthy (instanceUrl (config c))")
  case True
  with assms show ?thesis by (auto simp add: makeRequest_def)
next
  case False
  let ?rq = "request_config (config c) m path body params"
  let ?w1 = "w\<lparr>requests := requests w @ [ApiRequest ?rq]\<rparr>"
  show ?thesis
  proof (cases "api e (requests w) ?rq")
    case (Inr d)
    with False assms show ?thesis by (auto simp add: makeRequest_def axios_def)
  next
    case (Inl err)
    show ?thesis
    proof (cases "is_401 err")
      case no: False
      with Inl False assms show ?thesis by (auto simp add: makeRequest_def axios_def)
    next
      case True
      obtain ok c2 w2 where t: "tryTokenRefresh e (c, ?w1) = (ok, c2, w2)"
        by (cases "tryTokenRefresh e (c, ?w1)") auto
      from tryTokenRefresh_frame [of e c ?w1] t
      have f: "filter is_exchange (requests w2) = filter is_exchange (requests w)"
        "username (config c2) = username (config c)"
        "password (config c2) = password (config c)"
        "clientId (config c2) = clientId (config c)"
        "clientSecret (config c2) = clientSecret (config c)"
        "securityToken (config c2) = securityToken (config c)"
        "sandbox (config c2) = sandbox (config c)"
        by simp_all
      from Inl False True t assms have "c' = c2 \<and> (w' = w2 \<or> (\<exists>x. w' = w2\<lparr>requests := requests w2 @ [ApiRequest x]\<rparr>))"
        by (auto simp add: makeRequest_def axios_def Let_def split: if_splits)
      with f show ?thesis by auto
    qed
  qed
qed

lemma authenticate_ok:
  "fst (authenticate e usr pwd secTok sb (a, w)) \<longleftrightarrow>
     (\<exists>body. oauth e (requests w) (password_grant a usr pwd secTok sb) = Inr (Response 200 body))"
  by (cases "oauth e (requests w) (password_grant a usr pwd secTok sb)")
     (auto simp add: authenticate_def axios_post_def Let_def split: response.split)

lemma tryUsernamePasswordAuth_exchange:
  assumes "truthy (username (config c))" "truthy (password (config c))"
    "clientId (config c) \<noteq> []" "clientSecret (config c) \<noteq> []"
  shows "requests (snd (snd (tryUsernamePasswordAuth e (c, w))))
           = requests w @ [TokenRequest (exchange_request (config c))]
   \<and> (fst (tryUsernamePasswordAuth e (c, w)) \<longleftrightarrow>
        (\<exists>body. oauth e (requests w) (exchange_request (config c)) = Inr (Response 200 body)))"
proof -
  let ?a = "new_SalesforcePasswordAuth (clientId (config c)) (clientSecret (config c))"
  let ?w1 = "debugLog e (lock_sign @ '' Using username/password authentication with OAuth flow...'') w"
  let ?run = "authenticate e (interp (username (config c))) (interp (password (config c)))
                 (case securityToken (config c) of None \<Rightarrow> [] | Some t \<Rightarrow> t)
                 (sandbox (config c)) (?a, ?w1)"
  obtain ok a' w2 where r: "?run = (ok, a', w2)" by (cases ?run) auto
  from authenticate_requests [of e "interp (username (config c))" "interp (password (config c))"
      "case securityToken (config c) of None \<Rightarrow> [] | Some t \<Rightarrow> t" "sandbox (config c)" ?a ?w1] r
  have rq: "requests w2 = requests w @ [TokenRequest (exchange_request (config c))]"
    by (simp add: exchange_request_def)
  from authenticate_ok [of e "interp (username (config c))" "interp (password (config c))"
      "case securityToken (config c) of None \<Rightarrow> [] | Some t \<Rightarrow> t" "sandbox (config c)" ?a ?w1] r
  have ok: "ok \<longleftrightarrow> (\<exists>body. oauth e (requests w) (exchange_request (config c)) = Inr (Response 200 body))"
    by (simp add: exchange_request_def)
  from assms r rq ok show ?thesis
    by (simp add: tryUsernamePasswordAuth_def Let_def)
qed

text \<open>
  C8. With \<open>accessToken\<close> and \<open>instanceUrl\<close> supplied: when the probe succeeds,
  \<open>connect\<close> returns \<open>true\<close> and has posted no credential exchange; when the
  probe fails and username, password, client id and client secret are present, the
  exchange is posted next and \<open>connect\<close> returns \<open>true\<close> exactly when the
  exchange is answered with status 200.
\<close>

theorem connect_with_token:
  assumes tok: "truthy (accessToken (config c))" "truthy (instanceUrl (config c))"
    and pr: "probe e (c, w) = (r, c1, w1)"
  shows "(\<forall>d. r = Inr d \<longrightarrow>
            fst (connect e (c, w))
          \<and> filter is_exchange (requests (snd (snd (connect e (c, w)))))
              = filter is_exchange (requests w))
       \<and> (\<forall>err. r = Inl err \<and> truthy (username (config c)) \<and> truthy (password (config c))
              \<and> clientId (config c) \<noteq> [] \<and> clientSecret (config c) \<noteq> [] \<longrightarrow>
            requests (snd (snd (connect e (c, w))))
              = requests w1 @ [TokenRequest (exchange_request (config c))]
          \<and> (fst (connect e (c, w)) \<longleftrightarrow>
               (\<exists>body. oauth e (requests w1) (exchange_request (config c))
                         = Inr (Response 200 body))))"
proof (intro conjI allI impI)
  let ?w0 = "debugLog e (key_sign @ '' Using access token from environment variables...'') w"
  from pr have m: "makeRequest e GET ''/sobjects'' None None (c, ?w0) = (r, c1, w1)"
    by (simp add: probe_def)
  note f = makeRequest_frame [OF m]
  {
    fix d assume d: "r = Inr d"
    with tok m have t: "tryAccessTokenAuth e (c, w) =
        (True, c1, debugLog e (check_mark @ '' Access token authentication successful!'') w1)"
      by (simp add: tryAccessTokenAuth_def Let_def)
    then show "fst (connect e (c, w))" by (simp add: connect_def)
    from t f show "filter is_exchange (requests (snd (snd (connect e (c, w)))))
              = filter is_exchange (requests w)"
      by (simp add: connect_def)
  }
  {
    fix err
    assume a: "r = Inl err \<and> truthy (username (config c)) \<and> truthy (password (config c))
              \<and> clientId (config c) \<noteq> [] \<and> clientSecret (config c) \<noteq> []"
    let ?w2 = "errorLog e [Txt (cross_mark @ '' Access token is invalid or expired''), Obj err] w1"
    from a tok m have t: "tryAccessTokenAuth e (c, w) = (False, c1, ?w2)"
      by (simp add: tryAccessTokenAuth_def Let_def)
    from a f have creds: "truthy (username (config c1))" "truthy (password (config c1))"
        "clientId (config c1) \<noteq> []" "clientSecret (config c1) \<noteq> []"
      by simp_all
    from f have ex: "exchange_request (config c1) = exchange_request (config c)"
      by (simp add: exchange_request_def)
    obtain ok2 c2 w3 where u: "tryUsernamePasswordAuth e (c1, ?w2) = (ok2, c2, w3)"
      by (cases "tryUsernamePasswordAuth e (c1, ?w2)") auto
    from tryUsernamePasswordAuth_exchange [OF creds, of e ?w2] u ex
    have x: "requests w3 = requests w1 @ [TokenRequest (exchange_request (config c))]"
      "ok2 \<longleftrightarrow> (\<exists>body. oauth e (requests w1) (exchange_request (config c)) = Inr (Response 200 body))"
      by simp_all
    from t u x show "requests (snd (snd (connect e (c, w))))
              = requests w1 @ [TokenRequest (exchange_request (config c))]"
      by (simp add: connect_def handleAuthFailure_lines)
    from t u x show "fst (connect e (c, w)) \<longleftrightarrow>
               (\<exists>body. oauth e (requests w1) (exchange_request (config c))
                         = Inr (Response 200 body))"
      by (simp add: connect_def handleAuthFailure_lines)
  }
qed

theorem connect_with_token_witness:
  "fst (connect live_env (valid_client, fresh_io))
   \<and> filter is_exchange (requests (snd (snd (connect live_env (valid_client, fresh_io))))) = []
   \<and> fst (connect stale_env (valid_client, fresh_io))
   \<and> requests (snd (snd (connect stale_env (valid_client, fresh_io))))
       = [ApiRequest probe_request, TokenRequest (exchange_request token_config)]"
proof -
  have cfg: "config valid_client = token_config"
    by (simp add: valid_client_def new_SalesforceClient_def)
  have dbg: "debugLog live_env x fresh_io = fresh_io" "debugLog stale_env x fresh_io = fresh_io" for x
    by (simp_all add: debugLog_def live_env_def stale_env_def scripted_def)
  have "api live_env (requests fresh_io)
          (request_config (config valid_client) GET ''/sobjects'' None None) = Inr (JObj [])"
    by (simp add: live_env_def scripted_def nth_answer_def fresh_io_def)
  from makeRequest_resolved [OF valid_client_truthy this]
  have p1: "probe live_env (valid_client, fresh_io) =
      (Inr (JObj []), valid_client, fresh_io\<lparr>requests := requests fresh_io @ [ApiRequest probe_request]\<rparr>)"
    by (simp add: probe_def dbg cfg probe_request_def)
  from connect_with_token [OF valid_client_truthy p1]
  have one: "fst (connect live_env (valid_client, fresh_io))
      \<and> filter is_exchange (requests (snd (snd (connect live_env (valid_client, fresh_io)))))
          = filter is_exchange (requests fresh_io)"
    by blast
  have "api stale_env (requests fresh_io)
          (request_config (config valid_client) GET ''/sobjects'' None None) = Inl (JsError ''Unauthorized'')"
    by (simp add: stale_env_def scripted_def nth_answer_def fresh_io_def)
  with valid_client_truthy
  have p2: "probe stale_env (valid_client, fresh_io) =
      (Inl (JsError ''Unauthorized''), valid_client,
       fresh_io\<lparr>requests := requests fresh_io @ [ApiRequest probe_request]\<rparr>)"
    by (simp add: probe_def dbg makeRequest_def axios_def is_401_def handleRequestError_def
        cfg probe_request_def)
  have creds: "truthy (username (config valid_client)) \<and> truthy (password (config valid_client))
      \<and> clientId (config valid_client) \<noteq> [] \<and> clientSecret (config valid_client) \<noteq> []"
    unfolding cfg by (simp add: token_config_def test_config_def truthy_def)
  have g: "oauth stale_env
             (requests (fresh_io\<lparr>requests := requests fresh_io @ [ApiRequest probe_request]\<rparr>))
             (exchange_request (config valid_client)) = Inr (Response 200 renewed)"
    by (simp add: stale_env_def scripted_def nth_answer_def fresh_io_def)
  from connect_with_token [OF valid_client_truthy p2] creds
  have "requests (snd (snd (connect stale_env (valid_client, fresh_io))))
          = requests (fresh_io\<lparr>requests := requests fresh_io @ [ApiRequest probe_request]\<rparr>)
              @ [TokenRequest (exchange_request (config valid_client))]
      \<and> (fst (connect stale_env (valid_client, fresh_io)) \<longleftrightarrow>
               (\<exists>body. oauth stale_env
                  (requests (fresh_io\<lparr>requests := requests fresh_io @ [ApiRequest probe_request]\<rparr>))
                  (exchange_request (config valid_client)) = Inr (Response 200 body)))"
    by blast
  with g have two: "fst (connect stale_env (valid_client, fresh_io))
      \<and> requests (snd (snd (connect stale_env (valid_client, fresh_io))))
          = [ApiRequest probe_request, TokenRequest (exchange_request token_config)]"
    by (simp add: cfg fresh_io_def)
  from one two show ?thesis by (simp add: fresh_io_def)
qed

text \<open>
  C9, as the claim states it, fails: \<open>connect\<close> throws nothing and returns
  \<open>false\<close>, and with debug logging off it writes no message at all.
\<close>

theorem connect_silent_counterexample:
  "connect offline_env (new_SalesforceClient bare_config, fresh_io) =
     (False, new_SalesforceClient bare_config, fresh_io)
   \<and> console fresh_io = []
   \<and> \<not> debug_enabled offline_env"
  by (simp add: connect_def tryAccessTokenAuth_def tryUsernamePasswordAuth_def
      handleAuthFailure_lines new_SalesforceClient_def bare_config_def truthy_def
      offline_env_def scripted_def fresh_io_def)

text \<open>
  C9, amended. For a config with neither the token pair nor the username and password
  pair, \<open>connect\<close> returns \<open>false\<close>, issues no request, and writes the three
  lines naming both credential combinations to the error log when debug logging is
  on, and nothing otherwise; \<open>validateConfig\<close>, given a client id and secret,
  throws the error whose message names both combinations.
\<close>

theorem connect_without_credentials:
  assumes "\<not> (truthy (accessToken (config c)) \<and> truthy (instanceUrl (config c)))"
    and "\<not> (truthy (username (config c)) \<and> truthy (password (config c)))"
  shows "connect e (c, w) =
           (False, c, if debug_enabled e then w\<lparr>console := console w @ no_method_lines\<rparr> else w)
         \<and> requests (snd (snd (connect e (c, w)))) = requests w
         \<and> (clientId (config c) \<noteq> [] \<and> clientSecret (config c) \<noteq> [] \<longrightarrow>
              validateConfig (config c) = Inl (JsError
                ''Either (SALESFORCE_ACCESS_TOKEN + SALESFORCE_INSTANCE_URL) or (SALESFORCE_USERNAME + SALESFORCE_PASSWORD) must be provided''))"
proof -
  from assms(1) have 1: "tryAccessTokenAuth e (c, w) = (False, c, w)"
    by (auto simp add: tryAccessTokenAuth_def)
  from assms(2) have 2: "tryUsernamePasswordAuth e (c, w) = (False, c, w)"
    by (auto simp add: tryUsernamePasswordAuth_def)
  have 3: "connect e (c, w) =
           (False, c, if debug_enabled e then w\<lparr>console := console w @ no_method_lines\<rparr> else w)"
    by (simp add: connect_def 1 2 handleAuthFailure_lines)
  from assms have 4: "clientId (config c) \<noteq> [] \<and> clientSecret (config c) \<noteq> [] \<longrightarrow>
              validateConfig (config c) = Inl (JsError
                ''Either (SALESFORCE_ACCESS_TOKEN + SALESFORCE_INSTANCE_URL) or (SALESFORCE_USERNAME + SALESFORCE_PASSWORD) must be provided'')"
    by (simp add: validateConfig_def Let_def)
  from 3 4 show ?thesis by simp
qed

theorem connect_without_credentials_witness:
  "connect verbose_env (new_SalesforceClient bare_config, fresh_io) =
     (False, new_SalesforceClient bare_config, \<lparr>requests = [], console = no_method_lines\<rparr>)
   \<and> connect offline_env (new_SalesforceClient bare_config, fresh_io) =
     (False, new_SalesforceClient bare_config, \<lparr>requests = [], console = []\<rparr>)
   \<and> validateConfig bare_config = Inl (JsError
        ''Either (SALESFORCE_ACCESS_TOKEN + SALESFORCE_INSTANCE_URL) or (SALESFORCE_USERNAME + SALESFORCE_PASSWORD) must be provided'')"
proof -
  have c: "config (new_SalesforceClient bare_config) = bare_config"
    by (simp add: new_SalesforceClient_def)
  have h1: "\<not> (truthy (accessToken (config (new_SalesforceClient bare_config)))
               \<and> truthy (instanceUrl (config (new_SalesforceClient bare_config))))"
    and h2: "\<not> (truthy (username (config (new_SalesforceClient bare_config)))
               \<and> truthy (password (config (new_SalesforceClient bare_config))))"
    unfolding c by (simp_all add: bare_config_def truthy_def)
  have ids: "clientId bare_config \<noteq> [] \<and> clientSecret bare_config \<noteq> []"
    by (simp add: bare_config_def)
  from connect_without_credentials [OF h1 h2, of verbose_env fresh_io]
       connect_without_credentials [OF h1 h2, of offline_env fresh_io] ids
  show ?thesis
    by (simp add: c verbose_env_def offline_env_def scripted_def fresh_io_def)
qed

subsection \<open>Tooling and Apex REST calls\<close>

text \<open>
  C10. \<open>toolingExecute\<close> and \<open>apexExecute\<close> throw the not-authenticated error,
  with no request, when \<open>instanceUrl\<close> is absent; when it is present they issue
  their request, with whatever \<open>accessToken\<close> holds in the bearer header, and
  return or throw what the call gives. \<open>makeRequest\<close> in the same state with
  \<open>accessToken\<close> absent throws the not-authenticated error.
\<close>

theorem tooling_apex_guard:
  "(\<not> truthy (instanceUrl (config c)) \<longrightarrow>
      toolingExecute e action m body (c, w) =
        (Inl (JsError ''Not authenticated. Call connect() first.''), c, w)
    \<and> apexExecute e action m body (c, w) =
        (Inl (JsError ''Not authenticated. Call connect() first.''), c, w))
   \<and> (truthy (instanceUrl (config c)) \<longrightarrow>
        toolingExecute e action m body (c, w) =
          (api e (requests w) (tooling_request (config c) action m body), c,
           w\<lparr>requests := requests w @ [ApiRequest (tooling_request (config c) action m body)]\<rparr>)
      \<and> apexExecute e action m body (c, w) =
          (api e (requests w) (apex_request (config c) action m body), c,
           w\<lparr>requests := requests w @ [ApiRequest (apex_request (config c) action m body)]\<rparr>)
      \<and> req_authorization (tooling_request (config c) action m body)
          = ''Bearer '' @ interp (accessToken (config c))
      \<and> req_authorization (apex_request (config c) action m body)
          = ''Bearer '' @ interp (accessToken (config c)))
   \<and> (truthy (instanceUrl (config c)) \<and> \<not> truthy (accessToken (config c)) \<longrightarrow>
        makeRequest e m path body params (c, w) =
          (Inl (JsError ''Not authenticated. Call connect() first.''), c, w))"
  by (simp add: toolingExecute_def apexExecute_def axios_def makeRequest_def
      tooling_request_def apex_request_def Let_def)

theorem tooling_apex_guard_witness:
  "toolingExecute tooling_env ''query'' GET None (new_SalesforceClient url_only_config, fresh_io) =
     (Inr (JObj [(''success'', JBool True)]), new_SalesforceClient url_only_config,
      \<lparr>requests =
         [ApiRequest
            \<lparr>req_method = GET,
             req_url = ''https://test.salesforce.com/services/data/v58.0/tooling/query'',
             req_authorization = ''Bearer undefined'',
             req_content_type = ''application/json'',
             req_params = None, req_data = None\<rparr>],
       console = []\<rparr>)
   \<and> apexExecute tooling_env ''hello'' GET None (new_SalesforceClient url_only_config, fresh_io) =
     (Inr (JObj [(''success'', JBool True)]), new_SalesforceClient url_only_config,
      \<lparr>requests =
         [ApiRequest
            \<lparr>req_method = GET,
             req_url = ''https://test.salesforce.com/services/apexrest/hello'',
             req_authorization = ''Bearer undefined'',
             req_content_type = ''application/json'',
             req_params = None, req_data = None\<rparr>],
       console = []\<rparr>)
   \<and> makeRequest tooling_env GET ''/sobjects'' None None (new_SalesforceClient url_only_config, fresh_io) =
     (Inl (JsError ''Not authenticated. Call connect() first.''),
      new_SalesforceClient url_only_config, fresh_io)
   \<and> toolingExecute tooling_env ''query'' GET None (new_SalesforceClient bare_config, fresh_io) =
     (Inl (JsError ''Not authenticated. Call connect() first.''),
      new_SalesforceClient bare_config, fresh_io)
   \<and> apexExecute tooling_env ''hello'' GET None (new_SalesforceClient bare_config, fresh_io) =
     (Inl (JsError ''Not authenticated. Call connect() first.''),
      new_SalesforceClient bare_config, fresh_io)"
proof -
  have u: "truthy (instanceUrl (config (new_SalesforceClient url_only_config)))"
      "\<not> truthy (accessToken (config (new_SalesforceClient url_only_config)))"
    by (simp_all add: new_SalesforceClient_def url_only_config_def bare_config_def truthy_def)
  have b: "\<not> truthy (instanceUrl (config (new_SalesforceClient bare_config)))"
    by (simp add: new_SalesforceClient_def bare_config_def truthy_def)
  have t: "tooling_request (config (new_SalesforceClient url_only_config)) ''query'' GET None =
            \<lparr>req_method = GET,
             req_url = ''https://test.salesforce.com/services/data/v58.0/tooling/query'',
             req_authorization = ''Bearer undefined'',
             req_content_type = ''application/json'',
             req_params = None, req_data = None\<rparr>"
    by (simp add: tooling_request_def new_SalesforceClient_def url_only_config_def bare_config_def
        interp_def)
  have a: "apex_request (config (new_SalesforceClient url_only_config)) ''hello'' GET None =
            \<lparr>req_method = GET,
             req_url = ''https://test.salesforce.com/services/apexrest/hello'',
             req_authorization = ''Bearer undefined'',
             req_content_type = ''application/json'',
             req_params = None, req_data = None\<rparr>"
    by (simp add: apex_request_def new_SalesforceClient_def url_only_config_def bare_config_def
        interp_def)
  have s: "api tooling_env (requests fresh_io) rq = Inr (JObj [(''success'', JBool True)])" for rq
    by (simp add: tooling_env_def scripted_def nth_answer_def fresh_io_def)
  from tooling_apex_guard [where c = "new_SalesforceClient url_only_config" and e = tooling_env
       and w = fresh_io and m = GET and body = None and action = "''query''"
       and path = "''/sobjects''" and params = None] u
  have 1: "toolingExecute tooling_env ''query'' GET None (new_SalesforceClient url_only_config, fresh_io) =
          (api tooling_env (requests fresh_io)
             (tooling_request (config (new_SalesforceClient url_only_config)) ''query'' GET None),
           new_SalesforceClient url_only_config,
           fresh_io\<lparr>requests := requests fresh_io @
             [ApiRequest (tooling_request (config (new_SalesforceClient url_only_config)) ''query'' GET None)]\<rparr>)"
    and 3: "makeRequest tooling_env GET ''/sobjects'' None None (new_SalesforceClient url_only_config, fresh_io) =
          (Inl (JsError ''Not authenticated. Call connect() first.''),
           new_SalesforceClient url_only_config, fresh_io)"
    by blast+
  from tooling_apex_guard [where c = "new_SalesforceClient url_only_config" and e = tooling_env
       and w = fresh_io and m = GET and body = None and action = "''hello''"] u
  have 2: "apexExecute tooling_env ''hello'' GET None (new_SalesforceClient url_only_config, fresh_io) =
          (api tooling_env (requests fresh_io)
             (apex_request (config (new_SalesforceClient url_only_config)) ''hello'' GET None),
           new_SalesforceClient url_only_config,
           fresh_io\<lparr>requests := requests fresh_io @
             [ApiRequest (apex_request (config (new_SalesforceClient url_only_config)) ''hello'' GET None)]\<rparr>)"
    by blast
  from tooling_apex_guard [where c = "new_SalesforceClient bare_config" and e = tooling_env
       and w = fresh_io and m = GET and body = None and action = "''query''"] b
  have 4: "toolingExecute tooling_env ''query'' GET None (new_SalesforceClient bare_config, fresh_io) =
     (Inl (JsError ''Not authenticated. Call connect() first.''),
      new_SalesforceClient bare_config, fresh_io)"
    by blast
  from tooling_apex_guard [where c = "new_SalesforceClient bare_config" and e = tooling_env
       and w = fresh_io and m = GET and body = None and action = "''hello''"] b
  have 5: "apexExecute tooling_env ''hello'' GET None (new_SalesforceClient bare_config, fresh_io) =
     (Inl (JsError ''Not authenticated. Call connect() first.''),
      new_SalesforceClient bare_config, fresh_io)"
    by blast
  from 1 2 3 4 5 show ?thesis
    unfolding t a s by (simp add: fresh_io_def)
qed

end
